theory Spec2Isabelle
  imports Main
begin

section \<open>STM32CubeMX configuration validator (scripts/validate\_cubemx\_config.py)\<close>

text \<open>
  A shallow embedding of the validator script. A Python \<open>str\<close> is an Isabelle
  \<open>string\<close>; every \<open>char\<close> stands for the code point of the same number, so the
  texts covered are those whose code points lie below 256. The configuration dictionary is
  a map, the validator object a record that every check takes and returns, and an
  exception is the left summand of the result, together with the object as the exception
  left it. Calls of \<open>print\<close> are not part of the model (standard output is taken to accept
  every text); what is kept of them is the evaluation of their arguments where that
  evaluation can raise.
\<close>

subsection \<open>Python's string operations\<close>

text \<open>\<open>str.isspace\<close> on one character, for code points below 256.\<close>

definition isspace :: "char \<Rightarrow> bool" where
  "isspace c = (c \<in> set [CHR 0x09, CHR 0x0A, CHR 0x0B, CHR 0x0C, CHR 0x0D,
                          CHR 0x1C, CHR 0x1D, CHR 0x1E, CHR 0x1F, CHR 0x20,
                          CHR 0x85, CHR 0xA0])"

definition lstrip :: "string \<Rightarrow> string" where
  "lstrip s = dropWhile isspace s"

definition rstrip :: "string \<Rightarrow> string" where
  "rstrip s = rev (dropWhile isspace (rev s))"

text \<open>\<open>s.strip()\<close>\<close>

definition strip :: "string \<Rightarrow> string" where
  "strip s = rstrip (lstrip s)"

text \<open>\<open>s.startswith(p)\<close>\<close>

definition startswith :: "string \<Rightarrow> string \<Rightarrow> bool" where
  "startswith s p = (take (length p) s = p)"

text \<open>
  \<open>s.split('=', 1)\<close> for a string \<open>s\<close> that contains \<open>=\<close>: the part before the first
  \<open>=\<close> and the part after it. The source calls it only under the test \<open>'=' in line\<close>,
  where Python returns exactly these two parts and the unpacking
  \<open>key, value = ...\<close> succeeds.
\<close>

definition split_eq :: "string \<Rightarrow> string \<times> string" where
  "split_eq s = (takeWhile (\<lambda>c. c \<noteq> CHR ''='') s, tl (dropWhile (\<lambda>c. c \<noteq> CHR ''='') s))"

text \<open>
  Iterating over a file opened in text mode: universal newlines, so a line ends at
  \<open>\n\<close>, at \<open>\r\n\<close> or at a lone \<open>\r\<close>, each handed over as \<open>\n\<close>; the last line
  may lack a terminator.
\<close>

fun readlines :: "string \<Rightarrow> string list" where
  "readlines [] = []"
| "readlines (c # cs) =
     (if c = CHR 0x0A then [CHR 0x0A] # readlines cs
      else if c = CHR 0x0D then
        (case cs of
           d # ds \<Rightarrow> if d = CHR 0x0A then [CHR 0x0A] # readlines ds
                     else [CHR 0x0A] # readlines cs
         | [] \<Rightarrow> [[CHR 0x0A]])
      else (case readlines cs of
              [] \<Rightarrow> [[c]]
            | l # ls \<Rightarrow> (c # l) # ls))"

subsection \<open>Python's \<open>int(str)\<close>\<close>

text \<open>
  \<open>int(s)\<close> in base 10: white space around the numeral is dropped (for code points
  below 256 the characters 9 to 13, 32, 133 and 160; the separators 28 to 31 are not
  accepted here, unlike in \<open>strip\<close>), one sign may lead, and the digits may be grouped by
  single underscores between digits. Anything else raises \<open>ValueError\<close>, which is the
  result \<open>None\<close>; so does a numeral of more than 4300 digits (the default of
  \<open>sys.set_int_max_str_digits\<close>).
\<close>

definition int_space :: "char \<Rightarrow> bool" where
  "int_space c = (c \<in> set [CHR 0x09, CHR 0x0A, CHR 0x0B, CHR 0x0C, CHR 0x0D, CHR 0x20,
                            CHR 0x85, CHR 0xA0])"

definition is_digit :: "char \<Rightarrow> bool" where
  "is_digit c = (c \<in> set ''0123456789'')"

definition digit_val :: "char \<Rightarrow> int" where
  "digit_val c = int (of_char c) - 48"

fun digits_ok :: "string \<Rightarrow> bool" where
  "digits_ok [] = False"
| "digits_ok [c] = is_digit c"
| "digits_ok (c # d # cs) =
     (if is_digit c then (if d = CHR ''_'' then digits_ok cs else digits_ok (d # cs))
      else False)"

definition digits_value :: "string \<Rightarrow> int" where
  "digits_value ds = foldl (\<lambda>a c. 10 * a + digit_val c) 0 (filter is_digit ds)"

definition int_max_str_digits :: nat where
  "int_max_str_digits = 4300"

definition int_of_str :: "string \<Rightarrow> int option" where
  "int_of_str s =
     (let t = rev (dropWhile int_space (rev (dropWhile int_space s)));
          neg = (take 1 t = ''-'');
          ds = (if take 1 t = ''-'' then drop 1 t
                else if take 1 t = ''+'' then drop 1 t else t)
      in if digits_ok ds then
           (if length (filter is_digit ds) \<le> int_max_str_digits
            then Some (if neg then - digits_value ds else digits_value ds)
            else None)
         else None)"

subsection \<open>Exceptions and formatted messages\<close>

datatype exn = FileNotFoundError | ReadError | OverflowError

text \<open>
  A message is the sequence of the pieces of its f-string. The two floating-point
  renderings stay symbolic: \<open>Fixed1 n\<close> is the text of \<open>n / 1e6\<close> under the format
  \<open>.1f\<close>, \<open>Fixed0 n\<close> the text under \<open>.0f\<close>.
\<close>

datatype piece = Lit string | Fixed1 int | Fixed0 int

type_synonym message = "piece list"

text \<open>
  \<open>n / 1e6\<close> first converts the integer to a double, which raises \<open>OverflowError\<close>
  when the magnitude rounds to \<open>2 ^ 1024\<close> or more.
\<close>

definition float_overflows :: "int \<Rightarrow> bool" where
  "float_overflows n = (2 ^ 1024 - 2 ^ 970 \<le> \<bar>n\<bar>)"

fun piece_raises :: "piece \<Rightarrow> bool" where
  "piece_raises (Lit s) = False"
| "piece_raises (Fixed1 n) = float_overflows n"
| "piece_raises (Fixed0 n) = float_overflows n"

text \<open>Evaluating an f-string: its pieces from left to right.\<close>

definition fstring :: "piece list \<Rightarrow> exn + message" where
  "fstring ps = (if list_ex piece_raises ps then Inl OverflowError else Inr ps)"

definition quote :: string where
  "quote = [CHR 0x27]"

subsection \<open>The rulebook\<close>

record dma_requirements =
  UART_RX_MODE :: string
  UART_RX_PRIORITY :: string
  UART_TX_MODE :: string
  UART_TX_PRIORITY :: string
  SPI_MODE :: string
  ADC_MODE :: string

record interrupt_requirements =
  DMA_PREEMPT :: string
  DMA_SUB :: string
  PERIPHERAL_PREEMPT :: string
  PERIPHERAL_SUB :: string

record clock_requirements =
  APB1_MIN :: int
  APB1_MAX :: int
  APB2_MIN :: int
  APB2_MAX :: int

record can_requirements =
  BAUDRATE :: int
  AUTO_RETRANSMIT :: string
  MODE :: string

record requirements =
  dma :: dma_requirements
  interrupts :: interrupt_requirements
  clock :: clock_requirements
  can :: can_requirements

definition REQUIREMENTS :: requirements where
  "REQUIREMENTS =
     \<lparr> dma = \<lparr> UART_RX_MODE = ''CIRCULAR'', UART_RX_PRIORITY = ''HIGH'',
               UART_TX_MODE = ''NORMAL'', UART_TX_PRIORITY = ''MEDIUM'',
               SPI_MODE = ''NORMAL'', ADC_MODE = ''CIRCULAR'' \<rparr>,
       interrupts = \<lparr> DMA_PREEMPT = ''5'', DMA_SUB = ''0'',
                      PERIPHERAL_PREEMPT = ''6'', PERIPHERAL_SUB = ''0'' \<rparr>,
       clock = \<lparr> APB1_MIN = 42000000, APB1_MAX = 50000000,
                 APB2_MIN = 80000000, APB2_MAX = 100000000 \<rparr>,
       can = \<lparr> BAUDRATE = 500000, AUTO_RETRANSMIT = ''ENABLE'', MODE = ''NORMAL'' \<rparr> \<rparr>"

subsection \<open>The validator object\<close>

type_synonym config = "string \<rightharpoonup> string"

record validator =
  ioc_path :: string
  config :: config
  errors :: "message list"
  warnings :: "message list"

datatype ioc_file = Missing | Unreadable | Text string

type_synonym filesystem = "string \<Rightarrow> ioc_file"

text \<open>One iteration of the loop of \<open>load_config\<close>.\<close>

definition load_line :: "config \<Rightarrow> string \<Rightarrow> config" where
  "load_line cfg raw =
     (let line = strip raw
      in if CHR ''='' \<in> set line \<and> \<not> startswith line ''#''
         then (case split_eq line of (key, val) \<Rightarrow> cfg(strip key \<mapsto> strip val))
         else cfg)"

text \<open>
  \<open>load_config\<close>: a path that does not exist raises \<open>FileNotFoundError\<close>; a file that
  cannot be opened, read or decoded raises something else (\<open>ReadError\<close>); otherwise the
  lines are taken in order.
\<close>

definition load_config :: "filesystem \<Rightarrow> validator \<Rightarrow> exn \<times> validator + validator" where
  "load_config fs v =
     (case fs (ioc_path v) of
        Missing \<Rightarrow> Inl (FileNotFoundError, v)
      | Unreadable \<Rightarrow> Inl (ReadError, v)
      | Text t \<Rightarrow> Inr (v\<lparr>config := foldl load_line (config v) (readlines t)\<rparr>))"

text \<open>The constructor \<open>IocValidator(ioc_path)\<close>.\<close>

definition IocValidator :: "filesystem \<Rightarrow> string \<Rightarrow> exn \<times> validator + validator" where
  "IocValidator fs path =
     load_config fs \<lparr> ioc_path = path, config = Map.empty, errors = [], warnings = [] \<rparr>"

definition get_value :: "validator \<Rightarrow> string \<Rightarrow> string \<Rightarrow> string" where
  "get_value v key dflt = (case config v key of None \<Rightarrow> dflt | Some x \<Rightarrow> x)"

subsection \<open>The five checks\<close>

definition validate_dma_config :: "requirements \<Rightarrow> validator \<Rightarrow> validator" where
  "validate_dma_config R v =
     (let uart_rx_dma = get_value v ''Dma.USART2_RX.0.Mode'' '''';
          uart_tx_dma = get_value v ''Dma.USART2_TX.1.Mode'' '''';
          v1 = (if uart_rx_dma \<noteq> UART_RX_MODE (dma R)
                then v\<lparr>errors := errors v @
                       [[Lit (''UART RX DMA mode: Expected '' @ UART_RX_MODE (dma R) @
                              '', found '' @ quote @ uart_rx_dma @ quote)]]\<rparr>
                else v);
          v2 = (if uart_tx_dma \<noteq> UART_TX_MODE (dma R)
                then v1\<lparr>warnings := warnings v1 @
                       [[Lit (''UART TX DMA mode: Expected '' @ UART_TX_MODE (dma R) @
                              '', found '' @ quote @ uart_tx_dma @ quote)]]\<rparr>
                else v1);
          adc_dma_mode = get_value v2 ''Dma.ADC1.0.Mode'' ''''
      in if adc_dma_mode \<noteq> ADC_MODE (dma R)
         then v2\<lparr>errors := errors v2 @
                [[Lit (''ADC DMA mode: Expected '' @ ADC_MODE (dma R) @
                       '', found '' @ quote @ adc_dma_mode @ quote)]]\<rparr>
         else v2)"

definition validate_interrupts :: "requirements \<Rightarrow> validator \<Rightarrow> validator" where
  "validate_interrupts R v =
     (let dma_preempt = get_value v ''NVIC.DMA2_Stream0_IRQn.0.PreemptionPriority'' '''';
          dma_sub = get_value v ''NVIC.DMA2_Stream0_IRQn.0.SubPriority'' '''';
          v1 = (if dma_preempt \<noteq> DMA_PREEMPT (interrupts R)
                then v\<lparr>warnings := warnings v @
                       [[Lit (''DMA preemption priority: Expected '' @
                              DMA_PREEMPT (interrupts R) @
                              '', found '' @ quote @ dma_preempt @ quote)]]\<rparr>
                else v)
      in if dma_sub \<noteq> DMA_SUB (interrupts R)
         then v1\<lparr>warnings := warnings v1 @
                [[Lit (''DMA sub-priority: Expected '' @ DMA_SUB (interrupts R) @
                       '', found '' @ quote @ dma_sub @ quote)]]\<rparr>
         else v1)"

text \<open>
  The two range tests of the clock check. Each branch evaluates an f-string holding
  \<open>freq / 1e6\<close>: the message to append when the frequency is out of range, the
  confirmation line to print when it is in range. The confirmation line is printed and
  not stored, so only its evaluation matters here; the check mark that it starts with is
  no code point below 256 and is left out of its literal.
\<close>

definition check_apb1 :: "requirements \<Rightarrow> int \<Rightarrow> validator \<Rightarrow> exn \<times> validator + validator" where
  "check_apb1 R apb1_freq v =
     (if \<not> (APB1_MIN (clock R) \<le> apb1_freq \<and> apb1_freq \<le> APB1_MAX (clock R))
      then (case fstring [Lit ''APB1 frequency out of range: '', Fixed1 apb1_freq,
                          Lit '' MHz (expected '', Fixed0 (APB1_MIN (clock R)), Lit ''-'',
                          Fixed0 (APB1_MAX (clock R)), Lit '' MHz)'']
            of Inl e \<Rightarrow> Inl (e, v)
             | Inr m \<Rightarrow> Inr (v\<lparr>errors := errors v @ [m]\<rparr>))
      else (case fstring [Lit ''  APB1 frequency: '', Fixed1 apb1_freq, Lit '' MHz'']
            of Inl e \<Rightarrow> Inl (e, v)
             | Inr m \<Rightarrow> Inr v))"

definition check_apb2 :: "requirements \<Rightarrow> int \<Rightarrow> validator \<Rightarrow> exn \<times> validator + validator" where
  "check_apb2 R apb2_freq v =
     (if \<not> (APB2_MIN (clock R) \<le> apb2_freq \<and> apb2_freq \<le> APB2_MAX (clock R))
      then (case fstring [Lit ''APB2 frequency out of optimal range: '', Fixed1 apb2_freq,
                          Lit '' MHz (recommended '', Fixed0 (APB2_MIN (clock R)), Lit ''-'',
                          Fixed0 (APB2_MAX (clock R)), Lit '' MHz)'']
            of Inl e \<Rightarrow> Inl (e, v)
             | Inr m \<Rightarrow> Inr (v\<lparr>warnings := warnings v @ [m]\<rparr>))
      else (case fstring [Lit ''  APB2 frequency: '', Fixed1 apb2_freq, Lit '' MHz'']
            of Inl e \<Rightarrow> Inl (e, v)
             | Inr m \<Rightarrow> Inr v))"

definition validate_clock_config :: "requirements \<Rightarrow> validator \<Rightarrow> exn \<times> validator + validator" where
  "validate_clock_config R v =
     (let apb1_freq_str = get_value v ''RCC.APB1Freq_Value'' ''0'';
          apb2_freq_str = get_value v ''RCC.APB2Freq_Value'' ''0''
      in case int_of_str apb1_freq_str of
           None \<Rightarrow>
             Inr (v\<lparr>errors := errors v @
                    [[Lit ''Failed to parse clock frequencies from IOC file'']]\<rparr>)
         | Some apb1_freq \<Rightarrow>
             (case int_of_str apb2_freq_str of
                None \<Rightarrow>
                  Inr (v\<lparr>errors := errors v @
                         [[Lit ''Failed to parse clock frequencies from IOC file'']]\<rparr>)
              | Some apb2_freq \<Rightarrow>
                  (case check_apb1 R apb1_freq v of
                     Inl ev \<Rightarrow> Inl ev
                   | Inr v1 \<Rightarrow> check_apb2 R apb2_freq v1)))"

definition validate_can_config :: "validator \<Rightarrow> validator" where
  "validate_can_config v =
     (let can_mode = get_value v ''CAN1.Mode'' ''''
      in if can_mode = ''''
         then v\<lparr>warnings := warnings v @
                [[Lit ''CAN1 not enabled (platform supports CAN)'']]\<rparr>
         else
           (let prescaler = get_value v ''CAN1.Prescaler'' '''';
                auto_retx = get_value v ''CAN1.NART'' ''''
            in if auto_retx = ''DISABLE'' then v
               else v\<lparr>warnings := warnings v @
                      [[Lit (''CAN auto-retransmit should be enabled (NART=DISABLE), found NART=''
                             @ auto_retx)]]\<rparr>))"

definition validate_code_generation :: "validator \<Rightarrow> validator" where
  "validate_code_generation v =
     (let keep_user_code = get_value v ''ProjectManager.KeepUserCode'' '''';
          v1 = (if keep_user_code \<noteq> ''true''
                then v\<lparr>errors := errors v @
                       [[Lit (''Code generation setting '' @ quote @ ''KeepUserCode'' @ quote @
                              '' must be '' @ quote @ ''true'' @ quote @
                              '' for platform integration'')]]\<rparr>
                else v);
          delete_prev = get_value v1 ''ProjectManager.DeletePrevious'' ''''
      in if delete_prev = ''true''
         then v1\<lparr>warnings := warnings v1 @
                [[Lit (''Code generation '' @ quote @ ''DeletePrevious'' @ quote @
                       '' is enabled - may remove platform files'')]]\<rparr>
         else v1)"

subsection \<open>The run and the entry point\<close>

text \<open>
  \<open>run_validation\<close>: the five checks in order, then the verdict. An exception of a check
  ends the run there.
\<close>

definition run_validation ::
    "requirements \<Rightarrow> validator \<Rightarrow> exn \<times> validator + validator \<times> bool" where
  "run_validation R v =
     (let v1 = validate_dma_config R v;
          v2 = validate_interrupts R v1
      in case validate_clock_config R v2 of
           Inl ev \<Rightarrow> Inl ev
         | Inr v3 \<Rightarrow>
             (let v4 = validate_can_config v3;
                  v5 = validate_code_generation v4
              in if errors v5 = [] \<and> warnings v5 = [] then Inr (v5, True)
                 else if errors v5 \<noteq> [] then Inr (v5, False)
                 else Inr (v5, True)))"

text \<open>The body of the \<open>try\<close> block of \<open>main\<close>, up to the call of \<open>sys.exit\<close>.\<close>

definition try_block ::
    "requirements \<Rightarrow> filesystem \<Rightarrow> string \<Rightarrow> exn \<times> validator + validator \<times> bool" where
  "try_block R fs path =
     (case IocValidator fs path of
        Inl ev \<Rightarrow> Inl ev
      | Inr validator \<Rightarrow> run_validation R validator)"

text \<open>
  \<open>main\<close>, as the exit status of the process. \<open>argv\<close> is \<open>sys.argv\<close>, the program's own
  name first. \<open>sys.exit\<close> raises \<open>SystemExit\<close>, which is no \<open>Exception\<close> and passes
  the two handlers. The module's table \<open>REQUIREMENTS\<close> is an argument of every function
  that reads it, so that what a function reads of it can be stated; the program is the
  instance \<open>main REQUIREMENTS\<close>.
\<close>

definition main :: "requirements \<Rightarrow> string list \<Rightarrow> filesystem \<Rightarrow> int" where
  "main R argv fs =
     (if length argv \<noteq> 2 then 1
      else (case try_block R fs (argv ! 1) of
              Inr (validator, success) \<Rightarrow> (if success then 0 else 1)
            | Inl (e, validator) \<Rightarrow> (if e = FileNotFoundError then 1 else 2)))"

subsection \<open>Observations and sample inputs\<close>

text \<open>A validator as the constructor leaves it, for a given configuration.\<close>

definition fresh :: "config \<Rightarrow> validator" where
  "fresh cfg = \<lparr> ioc_path = ''board.ioc'', config = cfg, errors = [], warnings = [] \<rparr>"

text \<open>A configuration without \<open>Dma.USART2_RX.0.Mode\<close>, the two other DMA keys as required.\<close>

definition dma_sample :: validator where
  "dma_sample = fresh [''Dma.USART2_TX.1.Mode'' \<mapsto> ''NORMAL'',
                       ''Dma.ADC1.0.Mode'' \<mapsto> ''CIRCULAR'']"

text \<open>The validator as a check or a run left it, whether it returned or raised.\<close>

definition check_state :: "exn \<times> validator + validator \<Rightarrow> validator" where
  "check_state r = (case r of Inl (e, v) \<Rightarrow> v | Inr v \<Rightarrow> v)"

definition run_state :: "exn \<times> validator + validator \<times> bool \<Rightarrow> validator" where
  "run_state r = (case r of Inl (e, v) \<Rightarrow> v | Inr (v, b) \<Rightarrow> v)"

text \<open>Three configurations for the CAN check: no \<open>CAN1.Mode\<close>; mode and \<open>NART\<close> as
  required; \<open>NART\<close> enabled.\<close>

definition can_absent_sample :: validator where
  "can_absent_sample = fresh [''CAN1.Prescaler'' \<mapsto> ''6'', ''CAN1.NART'' \<mapsto> ''ENABLE'']"

definition can_ok_sample :: validator where
  "can_ok_sample = fresh [''CAN1.Mode'' \<mapsto> ''NORMAL'', ''CAN1.NART'' \<mapsto> ''DISABLE'']"

definition can_nart_sample :: validator where
  "can_nart_sample = fresh [''CAN1.Mode'' \<mapsto> ''NORMAL'', ''CAN1.NART'' \<mapsto> ''ENABLE'']"

text \<open>A configuration on which every check reports all it can.\<close>

definition worst_sample :: validator where
  "worst_sample = fresh [''ProjectManager.DeletePrevious'' \<mapsto> ''true'']"

text \<open>The validator that the constructor returns for a file of text \<open>t\<close>.\<close>

definition loaded :: "string \<Rightarrow> string \<Rightarrow> validator" where
  "loaded path t =
     \<lparr> ioc_path = path, config = foldl load_line Map.empty (readlines t),
       errors = [], warnings = [] \<rparr>"

text \<open>A command line with one argument, and file texts: one that passes with warnings,
  one whose APB1 frequency is no numeral.\<close>

definition nl :: string where
  "nl = [CHR 0x0A]"

definition argv_sample :: "string list" where
  "argv_sample = [''validate_cubemx_config.py'', ''board.ioc'']"

definition warn_text :: string where
  "warn_text =
     ''Dma.USART2_RX.0.Mode=CIRCULAR'' @ nl @
     ''Dma.ADC1.0.Mode=CIRCULAR'' @ nl @
     ''RCC.APB1Freq_Value=42000000'' @ nl @
     ''ProjectManager.KeepUserCode=true'' @ nl"

definition parse_text :: string where
  "parse_text =
     ''RCC.APB1Freq_Value=abc'' @ nl @
     ''ProjectManager.KeepUserCode=true'' @ nl"

text \<open>
  The hypothesis of the all-expected scenario, in the words of the specification: every key
  of the rulebook holds its expected value, the two frequencies are numerals within their
  ranges, \<open>CAN1.Mode\<close> is present and not empty, \<open>ProjectManager.DeletePrevious\<close> is
  not \<open>true\<close>.
\<close>

definition meets_rulebook :: "config \<Rightarrow> bool" where
  "meets_rulebook cfg =
     (cfg ''Dma.USART2_RX.0.Mode'' = Some ''CIRCULAR'' \<and>
      cfg ''Dma.USART2_TX.1.Mode'' = Some ''NORMAL'' \<and>
      cfg ''Dma.ADC1.0.Mode'' = Some ''CIRCULAR'' \<and>
      cfg ''NVIC.DMA2_Stream0_IRQn.0.PreemptionPriority'' = Some ''5'' \<and>
      cfg ''NVIC.DMA2_Stream0_IRQn.0.SubPriority'' = Some ''0'' \<and>
      (case cfg ''RCC.APB1Freq_Value'' of
         None \<Rightarrow> False
       | Some s \<Rightarrow> (case int_of_str s of
                      None \<Rightarrow> False
                    | Some n \<Rightarrow> 42000000 \<le> n \<and> n \<le> 50000000)) \<and>
      (case cfg ''RCC.APB2Freq_Value'' of
         None \<Rightarrow> False
       | Some s \<Rightarrow> (case int_of_str s of
                      None \<Rightarrow> False
                    | Some n \<Rightarrow> 80000000 \<le> n \<and> n \<le> 100000000)) \<and>
      (case cfg ''CAN1.Mode'' of None \<Rightarrow> False | Some m \<Rightarrow> m \<noteq> '''') \<and>
      cfg ''CAN1.NART'' = Some ''DISABLE'' \<and>
      cfg ''ProjectManager.KeepUserCode'' = Some ''true'' \<and>
      cfg ''ProjectManager.DeletePrevious'' \<noteq> Some ''true'')"

text \<open>A file that meets the rulebook, and the same file with an APB1 frequency of
  \<open>10 ^ 309\<close> Hz.\<close>

definition full_text :: string where
  "full_text =
     ''# STM32CubeMX project'' @ nl @
     ''Dma.USART2_RX.0.Mode=CIRCULAR'' @ nl @
     ''Dma.USART2_TX.1.Mode=NORMAL'' @ nl @
     ''Dma.ADC1.0.Mode=CIRCULAR'' @ nl @
     ''NVIC.DMA2_Stream0_IRQn.0.PreemptionPriority=5'' @ nl @
     ''NVIC.DMA2_Stream0_IRQn.0.SubPriority=0'' @ nl @
     ''RCC.APB1Freq_Value=42000000'' @ nl @
     ''RCC.APB2Freq_Value=84000000'' @ nl @
     ''CAN1.Mode=NORMAL'' @ nl @
     ''CAN1.NART=DISABLE'' @ nl @
     ''ProjectManager.KeepUserCode=true'' @ nl @
     ''ProjectManager.DeletePrevious=false'' @ nl"

definition huge_text :: string where
  "huge_text =
     ''Dma.USART2_RX.0.Mode=CIRCULAR'' @ nl @
     ''Dma.USART2_TX.1.Mode=NORMAL'' @ nl @
     ''Dma.ADC1.0.Mode=CIRCULAR'' @ nl @
     ''NVIC.DMA2_Stream0_IRQn.0.PreemptionPriority=5'' @ nl @
     ''NVIC.DMA2_Stream0_IRQn.0.SubPriority=0'' @ nl @
     ''RCC.APB1Freq_Value=1'' @ replicate 309 (CHR ''0'') @ nl @
     ''RCC.APB2Freq_Value=84000000'' @ nl @
     ''CAN1.Mode=NORMAL'' @ nl @
     ''CAN1.NART=DISABLE'' @ nl @
     ''ProjectManager.KeepUserCode=true'' @ nl"

text \<open>The APB1 frequency of the second file.\<close>

definition huge_freq :: int where
  "huge_freq = 10 ^ 309"

text \<open>
  The loader in the words of the specification. A line, stripped, contributes nothing when
  it is empty, starts with \<open>#\<close> or holds no \<open>=\<close>; otherwise it contributes the text
  before its first \<open>=\<close> as key and the text after that \<open>=\<close> as value, both stripped.
  The configuration gives every key the value of the last line that contributes it.
\<close>

definition spec_entry :: "string \<Rightarrow> (string \<times> string) option" where
  "spec_entry raw =
     (let s = strip raw
      in if s = [] then None
         else if startswith s ''#'' then None
         else if CHR ''='' \<in> set s
           then Some (strip (takeWhile (\<lambda>c. c \<noteq> CHR ''='') s),
                      strip (drop (Suc (length (takeWhile (\<lambda>c. c \<noteq> CHR ''='') s))) s))
           else None)"

definition spec_load :: "string list \<Rightarrow> config" where
  "spec_load ls = map_of (rev (List.map_filter spec_entry ls))"

text \<open>A line with white space around it and a second \<open>=\<close> in its value.\<close>

definition line_sample :: string where
  "line_sample = ''  CAN1.Mode = A=B  '' @ nl"

text \<open>
  What a run shows to its caller: the exception if one ended it, the two lists of
  findings, and the value returned.
\<close>

definition verdict ::
    "exn \<times> validator + validator \<times> bool
     \<Rightarrow> exn option \<times> message list \<times> message list \<times> bool option" where
  "verdict r =
     (case r of
        Inl (e, v) \<Rightarrow> (Some e, errors v, warnings v, None)
      | Inr (v, b) \<Rightarrow> (None, errors v, warnings v, Some b))"

text \<open>
  The lookups whose value a check uses, each key with the default its call of
  \<open>get_value\<close> passes. \<open>CAN1.Mode\<close> is used only through the test whether it is empty,
  and \<open>CAN1.Prescaler\<close> not at all.
\<close>

definition lookups :: "(string \<times> string) list" where
  "lookups =
     [(''Dma.USART2_RX.0.Mode'', ''''), (''Dma.USART2_TX.1.Mode'', ''''),
      (''Dma.ADC1.0.Mode'', ''''),
      (''NVIC.DMA2_Stream0_IRQn.0.PreemptionPriority'', ''''),
      (''NVIC.DMA2_Stream0_IRQn.0.SubPriority'', ''''),
      (''RCC.APB1Freq_Value'', ''0''), (''RCC.APB2Freq_Value'', ''0''),
      (''CAN1.NART'', ''''),
      (''ProjectManager.KeepUserCode'', ''''), (''ProjectManager.DeletePrevious'', '''')]"

definition value_of :: "config \<Rightarrow> string \<Rightarrow> string \<Rightarrow> string" where
  "value_of c k d = (case c k of None \<Rightarrow> d | Some x \<Rightarrow> x)"

definition mode_enabled :: "config \<Rightarrow> bool" where
  "mode_enabled c = (case c ''CAN1.Mode'' of None \<Rightarrow> False | Some m \<Rightarrow> m \<noteq> '''')"

text \<open>Two configurations that give the same value to each of these lookups and agree on
  whether \<open>CAN1.Mode\<close> is empty.\<close>

definition same_values :: "config \<Rightarrow> config \<Rightarrow> bool" where
  "same_values c c' =
     (list_all (\<lambda>(k, d). value_of c' k d = value_of c k d) lookups
      \<and> mode_enabled c' = mode_enabled c)"

text \<open>Two rulebooks that agree on the entries the checks read: the three DMA modes, the
  two DMA interrupt priorities and the clock bounds.\<close>

definition same_consulted_rules :: "requirements \<Rightarrow> requirements \<Rightarrow> bool" where
  "same_consulted_rules R R' =
     (UART_RX_MODE (dma R') = UART_RX_MODE (dma R) \<and>
      UART_TX_MODE (dma R') = UART_TX_MODE (dma R) \<and>
      ADC_MODE (dma R') = ADC_MODE (dma R) \<and>
      DMA_PREEMPT (interrupts R') = DMA_PREEMPT (interrupts R) \<and>
      DMA_SUB (interrupts R') = DMA_SUB (interrupts R) \<and>
      clock R' = clock R)"

text \<open>The default that the lookups of a key pass.\<close>

definition default_of :: "string \<Rightarrow> string" where
  "default_of k =
     (if k = ''RCC.APB1Freq_Value'' then ''0''
      else if k = ''RCC.APB2Freq_Value'' then ''0'' else '''')"

text \<open>A validator moved to another configuration and path, its findings kept.\<close>

definition rebase :: "config \<Rightarrow> string \<Rightarrow> validator \<Rightarrow> validator" where
  "rebase c p v = v\<lparr>config := c, ioc_path := p\<rparr>"



section \<open>Properties\<close>

subsection \<open>Lookups\<close>

lemma get_value_errors_update [simp]: "get_value (v\<lparr>errors := es\<rparr>) k d = get_value v k d"
  by (simp add: get_value_def)

lemma get_value_warnings_update [simp]: "get_value (v\<lparr>warnings := ws\<rparr>) k d = get_value v k d"
  by (simp add: get_value_def)

lemma get_value_absent: "config v k = None \<Longrightarrow> get_value v k d = d"
  by (simp add: get_value_def)

lemma get_value_present: "config v k = Some x \<Longrightarrow> get_value v k d = x"
  by (simp add: get_value_def)

lemma REQUIREMENTS_simps [simp]:
  "UART_RX_MODE (dma REQUIREMENTS) = ''CIRCULAR''"
  "UART_TX_MODE (dma REQUIREMENTS) = ''NORMAL''"
  "ADC_MODE (dma REQUIREMENTS) = ''CIRCULAR''"
  "DMA_PREEMPT (interrupts REQUIREMENTS) = ''5''"
  "DMA_SUB (interrupts REQUIREMENTS) = ''0''"
  "APB1_MIN (clock REQUIREMENTS) = 42000000"
  "APB1_MAX (clock REQUIREMENTS) = 50000000"
  "APB2_MIN (clock REQUIREMENTS) = 80000000"
  "APB2_MAX (clock REQUIREMENTS) = 100000000"
  by (simp_all add: REQUIREMENTS_def)

subsection \<open>The DMA check\<close>

text \<open>
  Claim C6. The DMA check compares \<open>Dma.USART2_RX.0.Mode\<close> with \<open>CIRCULAR\<close> (a mismatch
  appends an error), \<open>Dma.USART2_TX.1.Mode\<close> with \<open>NORMAL\<close> (a mismatch appends a
  warning) and \<open>Dma.ADC1.0.Mode\<close> with \<open>CIRCULAR\<close> (a mismatch appends an error), by
  equality of strings and in that order, so that the receive error precedes the ADC error.
  When \<open>Dma.USART2_RX.0.Mode\<close> is absent and the two other keys are as required, the
  check appends exactly one error, since the empty default differs from \<open>CIRCULAR\<close>, and
  no warning.
\<close>

theorem dma_check_findings:
  "errors (validate_dma_config REQUIREMENTS v) =
     errors v
     @ (if get_value v ''Dma.USART2_RX.0.Mode'' '''' = ''CIRCULAR'' then []
        else [[Lit (''UART RX DMA mode: Expected CIRCULAR, found '' @ quote @
                    get_value v ''Dma.USART2_RX.0.Mode'' '''' @ quote)]])
     @ (if get_value v ''Dma.ADC1.0.Mode'' '''' = ''CIRCULAR'' then []
        else [[Lit (''ADC DMA mode: Expected CIRCULAR, found '' @ quote @
                    get_value v ''Dma.ADC1.0.Mode'' '''' @ quote)]])
   \<and> warnings (validate_dma_config REQUIREMENTS v) =
     warnings v
     @ (if get_value v ''Dma.USART2_TX.1.Mode'' '''' = ''NORMAL'' then []
        else [[Lit (''UART TX DMA mode: Expected NORMAL, found '' @ quote @
                    get_value v ''Dma.USART2_TX.1.Mode'' '''' @ quote)]])
   \<and> config (validate_dma_config REQUIREMENTS v) = config v
   \<and> (config v ''Dma.USART2_RX.0.Mode'' = None \<longrightarrow>
      config v ''Dma.USART2_TX.1.Mode'' = Some ''NORMAL'' \<longrightarrow>
      config v ''Dma.ADC1.0.Mode'' = Some ''CIRCULAR'' \<longrightarrow>
      errors (validate_dma_config REQUIREMENTS v) =
        errors v @ [[Lit (''UART RX DMA mode: Expected CIRCULAR, found '' @ quote @ quote)]]
      \<and> warnings (validate_dma_config REQUIREMENTS v) = warnings v)"
  by (simp add: validate_dma_config_def Let_def get_value_absent get_value_present)

theorem dma_check_findings_witness:
  "config dma_sample ''Dma.USART2_RX.0.Mode'' = None
   \<and> config dma_sample ''Dma.USART2_TX.1.Mode'' = Some ''NORMAL''
   \<and> config dma_sample ''Dma.ADC1.0.Mode'' = Some ''CIRCULAR''
   \<and> length (errors (validate_dma_config REQUIREMENTS dma_sample)) = 1
   \<and> warnings (validate_dma_config REQUIREMENTS dma_sample) = []"
proof -
  have a: "config dma_sample ''Dma.USART2_RX.0.Mode'' = None"
    and b: "config dma_sample ''Dma.USART2_TX.1.Mode'' = Some ''NORMAL''"
    and c: "config dma_sample ''Dma.ADC1.0.Mode'' = Some ''CIRCULAR''"
    and d: "errors dma_sample = []" "warnings dma_sample = []"
    by (simp_all add: dma_sample_def fresh_def)
  note r = dma_check_findings [of dma_sample, THEN conjunct2, THEN conjunct2, THEN conjunct2,
      rule_format, OF a b c]
  from r a b c d show ?thesis by simp
qed

lemma get_value_config_update:
  "get_value (v\<lparr>config := (config v)(k := x)\<rparr>) k' d =
     (if k' = k then (case x of None \<Rightarrow> d | Some y \<Rightarrow> y) else get_value v k' d)"
  by (simp add: get_value_def)

subsection \<open>The CAN check\<close>

text \<open>
  Claim C7. The CAN check never appends an error. When \<open>CAN1.Mode\<close> is empty or absent
  it appends the one warning that CAN1 is not enabled, whatever \<open>CAN1.Prescaler\<close> and
  \<open>CAN1.NART\<close> hold. Otherwise \<open>CAN1.Prescaler\<close> has no influence on the findings,
  \<open>CAN1.NART\<close> equal to \<open>DISABLE\<close> gives no finding, and any other value of it,
  the empty one too, gives exactly one warning whose text ends with the value found.
\<close>

theorem can_check_findings:
  "errors (validate_can_config v) = errors v
   \<and> config (validate_can_config v) = config v
   \<and> warnings (validate_can_config v) =
       warnings v @
       (if get_value v ''CAN1.Mode'' '''' = ''''
        then [[Lit ''CAN1 not enabled (platform supports CAN)'']]
        else if get_value v ''CAN1.NART'' '''' = ''DISABLE'' then []
        else [[Lit (''CAN auto-retransmit should be enabled (NART=DISABLE), found NART='' @
                    get_value v ''CAN1.NART'' '''')]])
   \<and> (get_value v ''CAN1.Mode'' '''' = '''' \<longrightarrow>
        warnings (validate_can_config
                    (v\<lparr>config := (config v)(''CAN1.Prescaler'' := p, ''CAN1.NART'' := n)\<rparr>)) =
        warnings v @ [[Lit ''CAN1 not enabled (platform supports CAN)'']])
   \<and> warnings (validate_can_config (v\<lparr>config := (config v)(''CAN1.Prescaler'' := p)\<rparr>)) =
       warnings (validate_can_config v)"
  by (simp add: validate_can_config_def Let_def get_value_def)

theorem can_check_findings_witness:
  "get_value can_absent_sample ''CAN1.Mode'' '''' = ''''
   \<and> errors (validate_can_config can_absent_sample) = []
   \<and> warnings (validate_can_config can_absent_sample) =
       [[Lit ''CAN1 not enabled (platform supports CAN)'']]
   \<and> warnings (validate_can_config
                 (can_absent_sample\<lparr>config := (config can_absent_sample)
                    (''CAN1.Prescaler'' := None, ''CAN1.NART'' := Some ''DISABLE'')\<rparr>)) =
       [[Lit ''CAN1 not enabled (platform supports CAN)'']]
   \<and> warnings (validate_can_config can_ok_sample) = []
   \<and> warnings (validate_can_config can_nart_sample) =
       [[Lit ''CAN auto-retransmit should be enabled (NART=DISABLE), found NART=ENABLE'']]"
proof -
  have a: "get_value can_absent_sample ''CAN1.Mode'' '''' = ''''"
    by (simp add: can_absent_sample_def fresh_def get_value_def)
  have w: "warnings can_absent_sample = []" "errors can_absent_sample = []"
    by (simp_all add: can_absent_sample_def fresh_def)
  note r = can_check_findings [of can_absent_sample None "Some ''DISABLE''"]
  have b: "get_value can_ok_sample ''CAN1.Mode'' '''' = ''NORMAL''"
      "get_value can_ok_sample ''CAN1.NART'' '''' = ''DISABLE''"
      "warnings can_ok_sample = []"
    by (simp_all add: can_ok_sample_def fresh_def get_value_def)
  have c: "get_value can_nart_sample ''CAN1.Mode'' '''' = ''NORMAL''"
      "get_value can_nart_sample ''CAN1.NART'' '''' = ''ENABLE''"
      "warnings can_nart_sample = []"
    by (simp_all add: can_nart_sample_def fresh_def get_value_def)
  note r2 = can_check_findings [of can_ok_sample None None]
  note r3 = can_check_findings [of can_nart_sample None None]
  have 1: "errors (validate_can_config can_absent_sample) = []" using r w by simp
  have 2: "warnings (validate_can_config can_absent_sample) =
       [[Lit ''CAN1 not enabled (platform supports CAN)'']]" using r a w by simp
  have 3: "warnings (validate_can_config
                 (can_absent_sample\<lparr>config := (config can_absent_sample)
                    (''CAN1.Prescaler'' := None, ''CAN1.NART'' := Some ''DISABLE'')\<rparr>)) =
       [[Lit ''CAN1 not enabled (platform supports CAN)'']]"
    using r [THEN conjunct2, THEN conjunct2, THEN conjunct2, THEN conjunct1, rule_format, OF a] w
    by simp
  have 4: "warnings (validate_can_config can_ok_sample) = []"
    using r2 [THEN conjunct2, THEN conjunct2, THEN conjunct1] b by simp
  have 5: "warnings (validate_can_config can_nart_sample) =
       [[Lit ''CAN auto-retransmit should be enabled (NART=DISABLE), found NART=ENABLE'']]"
    using r3 [THEN conjunct2, THEN conjunct2, THEN conjunct1] c by simp
  from a 1 2 3 4 5 show ?thesis by blast
qed

subsection \<open>How many findings a check can append\<close>

lemma dma_bounds:
  "\<exists>es ws. errors (validate_dma_config R v) = errors v @ es \<and> length es \<le> 2
         \<and> warnings (validate_dma_config R v) = warnings v @ ws \<and> length ws \<le> 1"
  by (simp add: validate_dma_config_def Let_def)

lemma interrupts_bounds:
  "\<exists>ws. errors (validate_interrupts R v) = errors v
       \<and> warnings (validate_interrupts R v) = warnings v @ ws \<and> length ws \<le> 2"
  by (simp add: validate_interrupts_def Let_def)

lemma check_apb1_cases:
  "check_apb1 R n v = Inr v \<or> check_apb1 R n v = Inl (OverflowError, v)
   \<or> (\<exists>m. check_apb1 R n v = Inr (v\<lparr>errors := errors v @ [m]\<rparr>))"
  by (auto simp add: check_apb1_def fstring_def)

lemma check_apb2_cases:
  "check_apb2 R n v = Inr v \<or> check_apb2 R n v = Inl (OverflowError, v)
   \<or> (\<exists>m. check_apb2 R n v = Inr (v\<lparr>warnings := warnings v @ [m]\<rparr>))"
  by (auto simp add: check_apb2_def fstring_def)

lemma clock_bounds:
  "\<exists>es ws. errors (check_state (validate_clock_config R v)) = errors v @ es \<and> length es \<le> 1
         \<and> warnings (check_state (validate_clock_config R v)) = warnings v @ ws
         \<and> length ws \<le> 1"
proof (cases "int_of_str (get_value v ''RCC.APB1Freq_Value'' ''0'')")
  case None
  then show ?thesis by (simp add: validate_clock_config_def check_state_def)
next
  case (Some n1)
  note s1 = this
  show ?thesis
  proof (cases "int_of_str (get_value v ''RCC.APB2Freq_Value'' ''0'')")
    case None
    with s1 show ?thesis by (simp add: validate_clock_config_def check_state_def)
  next
    case (Some n2)
    have eq: "validate_clock_config R v =
        (case check_apb1 R n1 v of Inl ev \<Rightarrow> Inl ev | Inr v1 \<Rightarrow> check_apb2 R n2 v1)"
      using s1 Some by (simp add: validate_clock_config_def)
    from check_apb1_cases [of R n1 v] show ?thesis
    proof (elim disjE exE)
      assume a: "check_apb1 R n1 v = Inr v"
      from check_apb2_cases [of R n2 v] show ?thesis
        by (elim disjE exE) (simp_all add: eq a check_state_def)
    next
      assume a: "check_apb1 R n1 v = Inl (OverflowError, v)"
      show ?thesis by (simp add: eq a check_state_def)
    next
      fix m assume a: "check_apb1 R n1 v = Inr (v\<lparr>errors := errors v @ [m]\<rparr>)"
      from check_apb2_cases [of R n2 "v\<lparr>errors := errors v @ [m]\<rparr>"] show ?thesis
        by (elim disjE exE) (simp_all add: eq a check_state_def)
    qed
  qed
qed

lemma can_bounds:
  "\<exists>ws. errors (validate_can_config v) = errors v
       \<and> warnings (validate_can_config v) = warnings v @ ws \<and> length ws \<le> 1"
  by (simp add: validate_can_config_def Let_def)

lemma code_generation_bounds:
  "\<exists>es ws. errors (validate_code_generation v) = errors v @ es \<and> length es \<le> 1
         \<and> warnings (validate_code_generation v) = warnings v @ ws \<and> length ws \<le> 1"
  by (simp add: validate_code_generation_def Let_def)

lemma run_state_cases:
  "run_state (run_validation R v) =
     (case validate_clock_config R (validate_interrupts R (validate_dma_config R v)) of
        Inl (e, v') \<Rightarrow> v'
      | Inr v3 \<Rightarrow> validate_code_generation (validate_can_config v3))"
  by (simp add: run_validation_def run_state_def Let_def split: sum.splits)

lemma run_bounds:
  "\<exists>es ws. errors (run_state (run_validation R v)) = errors v @ es \<and> length es \<le> 4
         \<and> warnings (run_state (run_validation R v)) = warnings v @ ws \<and> length ws \<le> 6"
proof -
  define v1 where "v1 = validate_dma_config R v"
  define v2 where "v2 = validate_interrupts R v1"
  define v3 where "v3 = check_state (validate_clock_config R v2)"
  obtain e1 w1 where 1: "errors v1 = errors v @ e1" "length e1 \<le> 2"
      "warnings v1 = warnings v @ w1" "length w1 \<le> 1"
    using dma_bounds [of R v] unfolding v1_def by blast
  obtain w2 where 2: "errors v2 = errors v1" "warnings v2 = warnings v1 @ w2" "length w2 \<le> 2"
    using interrupts_bounds [of R v1] unfolding v2_def by blast
  obtain e3 w3 where 3: "errors v3 = errors v2 @ e3" "length e3 \<le> 1"
      "warnings v3 = warnings v2 @ w3" "length w3 \<le> 1"
    using clock_bounds [of R v2] unfolding v3_def by blast
  show ?thesis
  proof (cases "validate_clock_config R v2")
    case (Inl ev)
    then have "run_state (run_validation R v) = v3"
      by (simp add: run_state_cases v1_def v2_def v3_def check_state_def split: prod.splits)
    with 1 2 3 show ?thesis by simp
  next
    case (Inr u)
    then have u: "u = v3" by (simp add: v3_def check_state_def)
    define v4 where "v4 = validate_can_config v3"
    define v5 where "v5 = validate_code_generation v4"
    obtain w4 where 4: "errors v4 = errors v3" "warnings v4 = warnings v3 @ w4" "length w4 \<le> 1"
      using can_bounds [of v3] unfolding v4_def by blast
    obtain e5 w5 where 5: "errors v5 = errors v4 @ e5" "length e5 \<le> 1"
        "warnings v5 = warnings v4 @ w5" "length w5 \<le> 1"
      using code_generation_bounds [of v4] unfolding v5_def by blast
    from Inr u have "run_state (run_validation R v) = v5"
      by (simp add: run_state_cases v1_def v2_def v4_def v5_def)
    with 1 2 3 4 5 show ?thesis by simp
  qed
qed

text \<open>
  Claim C9. Whatever the configuration, the DMA check appends at most 2 errors and 1
  warning, the interrupt check no error and at most 2 warnings, the clock check at most 1
  error and 1 warning, the CAN check no error and at most 1 warning, the code-generation
  check at most 1 error and 1 warning; a whole run appends at most 4 errors and 6 warnings,
  so a run of a newly constructed validator ends with at most 4 errors and 6 warnings.
\<close>

theorem findings_bounds:
  "(\<exists>es ws. errors (validate_dma_config R v) = errors v @ es \<and> length es \<le> 2
         \<and> warnings (validate_dma_config R v) = warnings v @ ws \<and> length ws \<le> 1)
   \<and> (\<exists>ws. errors (validate_interrupts R v) = errors v
         \<and> warnings (validate_interrupts R v) = warnings v @ ws \<and> length ws \<le> 2)
   \<and> (\<exists>es ws. errors (check_state (validate_clock_config R v)) = errors v @ es
         \<and> length es \<le> 1
         \<and> warnings (check_state (validate_clock_config R v)) = warnings v @ ws
         \<and> length ws \<le> 1)
   \<and> (\<exists>ws. errors (validate_can_config v) = errors v
         \<and> warnings (validate_can_config v) = warnings v @ ws \<and> length ws \<le> 1)
   \<and> (\<exists>es ws. errors (validate_code_generation v) = errors v @ es \<and> length es \<le> 1
         \<and> warnings (validate_code_generation v) = warnings v @ ws \<and> length ws \<le> 1)
   \<and> (\<exists>es ws. errors (run_state (run_validation R v)) = errors v @ es \<and> length es \<le> 4
         \<and> warnings (run_state (run_validation R v)) = warnings v @ ws \<and> length ws \<le> 6)
   \<and> length (errors (run_state (run_validation R (fresh cfg)))) \<le> 4
   \<and> length (warnings (run_state (run_validation R (fresh cfg)))) \<le> 6"
proof -
  obtain es ws where "errors (run_state (run_validation R (fresh cfg))) = errors (fresh cfg) @ es"
    "length es \<le> 4"
    "warnings (run_state (run_validation R (fresh cfg))) = warnings (fresh cfg) @ ws"
    "length ws \<le> 6"
    using run_bounds [of R "fresh cfg"] by blast
  then have "length (errors (run_state (run_validation R (fresh cfg)))) \<le> 4"
    "length (warnings (run_state (run_validation R (fresh cfg)))) \<le> 6"
    by (simp_all add: fresh_def)
  with dma_bounds [of R v] interrupts_bounds [of R v] clock_bounds [of R v] can_bounds [of v]
    code_generation_bounds [of v] run_bounds [of R v]
  show ?thesis by blast
qed

text \<open>
  The bounds of a run are attained: a configuration that holds nothing but
  \<open>ProjectManager.DeletePrevious=true\<close> ends with 4 errors and 6 warnings.
\<close>

lemma bounds_attained:
  "length (errors (run_state (run_validation REQUIREMENTS worst_sample))) = 4
   \<and> length (warnings (run_state (run_validation REQUIREMENTS worst_sample))) = 6"
  by code_simp

subsection \<open>The exit status\<close>

lemma IocValidator_Text: "fs path = Text t \<Longrightarrow> IocValidator fs path = Inr (loaded path t)"
  by (simp add: IocValidator_def load_config_def loaded_def)

lemma IocValidator_Missing:
  "fs path = Missing \<Longrightarrow> \<exists>v. IocValidator fs path = Inl (FileNotFoundError, v)"
  by (simp add: IocValidator_def load_config_def)

lemma IocValidator_Unreadable:
  "fs path = Unreadable \<Longrightarrow> \<exists>v. IocValidator fs path = Inl (ReadError, v)"
  by (simp add: IocValidator_def load_config_def)

lemma run_validation_raises:
  "run_validation R v = Inl (e, v') \<Longrightarrow> e = OverflowError"
  by (auto simp add: run_validation_def validate_clock_config_def check_apb1_def check_apb2_def
      fstring_def Let_def split: sum.splits option.splits if_splits)

lemma run_validation_success:
  "run_validation R v = Inr (v', b) \<Longrightarrow> b = (errors v' = [])"
  by (auto simp add: run_validation_def Let_def split: sum.splits if_splits)

lemma try_block_cases:
  "try_block R fs path =
     (case fs path of
        Missing \<Rightarrow> Inl (FileNotFoundError,
                       \<lparr> ioc_path = path, config = Map.empty, errors = [], warnings = [] \<rparr>)
      | Unreadable \<Rightarrow> Inl (ReadError,
                       \<lparr> ioc_path = path, config = Map.empty, errors = [], warnings = [] \<rparr>)
      | Text t \<Rightarrow> run_validation R (loaded path t))"
  by (simp add: try_block_def IocValidator_def load_config_def loaded_def split: ioc_file.splits)

text \<open>
  Claim C2. The exit status is 0 exactly when there is one argument and the run completed
  with an empty list of errors, whatever the warnings; it is 1 exactly when the number of
  arguments is not one, or the file does not exist, or the run completed with errors; it
  is 2 exactly when another exception ended the \<open>try\<close> block, which is the case of a
  file that cannot be read and of an \<open>OverflowError\<close> during the run. No other status
  occurs.
\<close>

theorem exit_code_policy:
  "(main R argv fs = 0) =
     (length argv = 2 \<and> (\<exists>v b. try_block R fs (argv ! 1) = Inr (v, b) \<and> errors v = []))
   \<and> (main R argv fs = 1) =
     (length argv \<noteq> 2 \<or> fs (argv ! 1) = Missing
      \<or> (\<exists>v b. try_block R fs (argv ! 1) = Inr (v, b) \<and> errors v \<noteq> []))
   \<and> (main R argv fs = 2) =
     (length argv = 2 \<and>
      (\<exists>e v. try_block R fs (argv ! 1) = Inl (e, v) \<and> e \<noteq> FileNotFoundError))
   \<and> (main R argv fs = 2) =
     (length argv = 2 \<and>
      (fs (argv ! 1) = Unreadable
       \<or> (\<exists>t v. fs (argv ! 1) = Text t
                \<and> run_validation R (loaded (argv ! 1) t) = Inl (OverflowError, v))))
   \<and> (main R argv fs = 0 \<or> main R argv fs = 1 \<or> main R argv fs = 2)"
proof (cases "length argv = 2")
  case False
  then show ?thesis by (simp add: main_def)
next
  case len: True
  show ?thesis
  proof (cases "fs (argv ! 1)")
    case Missing
    then show ?thesis using len by (simp add: main_def try_block_cases)
  next
    case Unreadable
    then show ?thesis using len by (simp add: main_def try_block_cases)
  next
    case (Text t)
    show ?thesis
    proof (cases "run_validation R (loaded (argv ! 1) t)")
      case (Inl ev)
      obtain e v where ev: "ev = (e, v)" by (cases ev)
      with Inl have "e = OverflowError" using run_validation_raises by blast
      with Inl ev Text len show ?thesis by (simp add: main_def try_block_cases)
    next
      case (Inr vb)
      obtain v b where vb: "vb = (v, b)" by (cases vb)
      with Inr have "b = (errors v = [])" using run_validation_success by blast
      with Inr vb Text len show ?thesis by (simp add: main_def try_block_cases)
    qed
  qed
qed

theorem exit_code_policy_witness:
  "length argv_sample = 2
   \<and> main REQUIREMENTS argv_sample (\<lambda>p. Text warn_text) = 0
   \<and> (\<exists>v b. try_block REQUIREMENTS (\<lambda>p. Text warn_text) (argv_sample ! 1) = Inr (v, b)
            \<and> errors v = [])
   \<and> length (warnings (run_state (try_block REQUIREMENTS (\<lambda>p. Text warn_text)
                                     (argv_sample ! 1)))) = 5
   \<and> main REQUIREMENTS argv_sample (\<lambda>p. Missing) = 1
   \<and> main REQUIREMENTS [''validate_cubemx_config.py''] (\<lambda>p. Text warn_text) = 1
   \<and> main REQUIREMENTS argv_sample (\<lambda>p. Unreadable) = 2"
proof -
  have len: "length argv_sample = 2" by (simp add: argv_sample_def)
  have m0: "main REQUIREMENTS argv_sample (\<lambda>p. Text warn_text) = 0" by code_simp
  have ex: "\<exists>v b. try_block REQUIREMENTS (\<lambda>p. Text warn_text) (argv_sample ! 1) = Inr (v, b)
                 \<and> errors v = []"
    using exit_code_policy [of REQUIREMENTS argv_sample "\<lambda>p. Text warn_text"] m0 by blast
  have w: "length (warnings (run_state (try_block REQUIREMENTS (\<lambda>p. Text warn_text)
                                     (argv_sample ! 1)))) = 5"
    by code_simp
  have m1: "main REQUIREMENTS argv_sample (\<lambda>p. Missing) = 1"
    using exit_code_policy [of REQUIREMENTS argv_sample "\<lambda>p. Missing"] by blast
  have m1': "main REQUIREMENTS [''validate_cubemx_config.py''] (\<lambda>p. Text warn_text) = 1"
    using exit_code_policy [of REQUIREMENTS "[''validate_cubemx_config.py'']"
        "\<lambda>p. Text warn_text"]
    by simp
  have m2: "main REQUIREMENTS argv_sample (\<lambda>p. Unreadable) = 2"
    using exit_code_policy [of REQUIREMENTS argv_sample "\<lambda>p. Unreadable"] len by blast
  from len m0 ex w m1 m1' m2 show ?thesis by blast
qed

subsection \<open>Clock frequencies that do not parse\<close>

lemma config_validate_dma_config [simp]: "config (validate_dma_config R v) = config v"
  by (simp add: validate_dma_config_def Let_def)

lemma config_validate_interrupts [simp]: "config (validate_interrupts R v) = config v"
  by (simp add: validate_interrupts_def Let_def)

lemma config_validate_can_config [simp]: "config (validate_can_config v) = config v"
  by (simp add: validate_can_config_def Let_def)

lemma config_validate_code_generation [simp]: "config (validate_code_generation v) = config v"
  by (simp add: validate_code_generation_def Let_def)

lemma get_value_config_eq: "config v' = config v \<Longrightarrow> get_value v' k d = get_value v k d"
  by (simp add: get_value_def)

lemma clock_parse_fail:
  assumes "int_of_str (get_value v ''RCC.APB1Freq_Value'' ''0'') = None
           \<or> int_of_str (get_value v ''RCC.APB2Freq_Value'' ''0'') = None"
  shows "validate_clock_config R v =
           Inr (v\<lparr>errors := errors v @
                  [[Lit ''Failed to parse clock frequencies from IOC file'']]\<rparr>)"
  using assms by (auto simp add: validate_clock_config_def split: option.splits)

text \<open>
  Claim C4. When \<open>RCC.APB1Freq_Value\<close> or \<open>RCC.APB2Freq_Value\<close> (\<open>0\<close> when absent)
  is no integer numeral, the clock check returns with exactly one more error, the parse
  failure, and nothing else changed; the run goes through the DMA and interrupt checks
  before it and the CAN and code-generation checks after it, each appending what it
  appends on its own, and returns the verdict fail without an exception; the process
  ends with status 1.
\<close>

theorem clock_parse_failure:
  assumes "int_of_str (get_value v ''RCC.APB1Freq_Value'' ''0'') = None
           \<or> int_of_str (get_value v ''RCC.APB2Freq_Value'' ''0'') = None"
  shows "validate_clock_config R v =
           Inr (v\<lparr>errors := errors v @
                  [[Lit ''Failed to parse clock frequencies from IOC file'']]\<rparr>)
         \<and> run_validation R v =
           Inr (validate_code_generation
                  (validate_can_config
                     ((validate_interrupts R (validate_dma_config R v))
                        \<lparr>errors := errors (validate_interrupts R (validate_dma_config R v)) @
                           [[Lit ''Failed to parse clock frequencies from IOC file'']]\<rparr>)),
                False)
         \<and> (length argv = 2 \<longrightarrow> fs (argv ! 1) = Text t \<longrightarrow> v = loaded (argv ! 1) t \<longrightarrow>
              main R argv fs = 1)"
proof -
  define v2 where "v2 = validate_interrupts R (validate_dma_config R v)"
  define v3 where "v3 = v2\<lparr>errors := errors v2 @
                           [[Lit ''Failed to parse clock frequencies from IOC file'']]\<rparr>"
  define v5 where "v5 = validate_code_generation (validate_can_config v3)"
  have cfg: "config v2 = config v" by (simp add: v2_def)
  have "int_of_str (get_value v2 ''RCC.APB1Freq_Value'' ''0'') = None
           \<or> int_of_str (get_value v2 ''RCC.APB2Freq_Value'' ''0'') = None"
    using assms by (simp add: get_value_config_eq [OF cfg])
  then have c: "validate_clock_config R v2 = Inr v3"
    unfolding v3_def by (rule clock_parse_fail)
  obtain w4 where 4: "errors (validate_can_config v3) = errors v3"
    using can_bounds [of v3] by blast
  obtain e5 w5 where 5: "errors v5 = errors (validate_can_config v3) @ e5"
    using code_generation_bounds [of "validate_can_config v3"] unfolding v5_def by blast
  have ne: "errors v5 \<noteq> []" using 4 5 by (simp add: v3_def)
  have run: "run_validation R v = Inr (v5, False)"
    using c ne by (simp add: run_validation_def Let_def v2_def [symmetric] v5_def [symmetric])
  have "main R argv fs = 1" if "length argv = 2" "fs (argv ! 1) = Text t" "v = loaded (argv ! 1) t"
    using that run by (simp add: main_def try_block_cases)
  with clock_parse_fail [OF assms, of R] run show ?thesis
    by (simp add: v5_def v3_def v2_def)
qed

theorem clock_parse_failure_witness:
  "int_of_str (get_value (loaded (argv_sample ! 1) parse_text) ''RCC.APB1Freq_Value'' ''0'') = None
   \<and> errors (check_state (validate_clock_config REQUIREMENTS (loaded (argv_sample ! 1) parse_text))) =
       [[Lit ''Failed to parse clock frequencies from IOC file'']]
   \<and> length (errors (run_state (run_validation REQUIREMENTS (loaded (argv_sample ! 1) parse_text)))) = 3
   \<and> length (warnings (run_state (run_validation REQUIREMENTS (loaded (argv_sample ! 1) parse_text)))) = 4
   \<and> main REQUIREMENTS argv_sample (\<lambda>p. Text parse_text) = 1"
proof -
  let ?v = "loaded (argv_sample ! 1) parse_text"
  have h: "int_of_str (get_value ?v ''RCC.APB1Freq_Value'' ''0'') = None"
    by code_simp
  then have h': "int_of_str (get_value ?v ''RCC.APB1Freq_Value'' ''0'') = None
           \<or> int_of_str (get_value ?v ''RCC.APB2Freq_Value'' ''0'') = None" by blast
  have len: "length argv_sample = 2" by (simp add: argv_sample_def)
  note r = clock_parse_failure [OF h', of REQUIREMENTS argv_sample "\<lambda>p. Text parse_text" parse_text]
  have 1: "errors (check_state (validate_clock_config REQUIREMENTS ?v)) =
       [[Lit ''Failed to parse clock frequencies from IOC file'']]"
    using r [THEN conjunct1] by (simp add: check_state_def loaded_def)
  have 2: "length (errors (run_state (run_validation REQUIREMENTS ?v))) = 3" by code_simp
  have 3: "length (warnings (run_state (run_validation REQUIREMENTS ?v))) = 4" by code_simp
  have 4: "main REQUIREMENTS argv_sample (\<lambda>p. Text parse_text) = 1"
    using r [THEN conjunct2, THEN conjunct2] len by simp
  from h 1 2 3 4 show ?thesis by blast
qed

subsection \<open>A configuration that meets the rulebook\<close>

lemma not_float_overflows_small: "\<bar>n\<bar> \<le> 100000000 \<Longrightarrow> \<not> float_overflows n"
  by (simp add: float_overflows_def)

lemma run_validation_meets:
  assumes m: "meets_rulebook (config v)" and e: "errors v = []" and w: "warnings v = []"
  shows "run_validation REQUIREMENTS v = Inr (v, True)"
proof -
  from m obtain s1 n1 s2 n2 mode where
    rx: "config v ''Dma.USART2_RX.0.Mode'' = Some ''CIRCULAR''"
    and tx: "config v ''Dma.USART2_TX.1.Mode'' = Some ''NORMAL''"
    and adc: "config v ''Dma.ADC1.0.Mode'' = Some ''CIRCULAR''"
    and pre: "config v ''NVIC.DMA2_Stream0_IRQn.0.PreemptionPriority'' = Some ''5''"
    and sub: "config v ''NVIC.DMA2_Stream0_IRQn.0.SubPriority'' = Some ''0''"
    and a1: "config v ''RCC.APB1Freq_Value'' = Some s1" "int_of_str s1 = Some n1"
      "42000000 \<le> n1" "n1 \<le> 50000000"
    and a2: "config v ''RCC.APB2Freq_Value'' = Some s2" "int_of_str s2 = Some n2"
      "80000000 \<le> n2" "n2 \<le> 100000000"
    and cm: "config v ''CAN1.Mode'' = Some mode" "mode \<noteq> ''''"
    and nart: "config v ''CAN1.NART'' = Some ''DISABLE''"
    and keep: "config v ''ProjectManager.KeepUserCode'' = Some ''true''"
    and del: "config v ''ProjectManager.DeletePrevious'' \<noteq> Some ''true''"
    unfolding meets_rulebook_def by (auto split: option.splits)
  have dma: "validate_dma_config REQUIREMENTS v = v"
    by (simp add: validate_dma_config_def Let_def get_value_present [OF rx]
        get_value_present [OF tx] get_value_present [OF adc])
  have irq: "validate_interrupts REQUIREMENTS v = v"
    by (simp add: validate_interrupts_def Let_def get_value_present [OF pre]
        get_value_present [OF sub])
  have f1: "\<not> float_overflows n1" using a1 by (intro not_float_overflows_small) simp
  have f2: "\<not> float_overflows n2" using a2 by (intro not_float_overflows_small) simp
  have c1: "check_apb1 REQUIREMENTS n1 v = Inr v"
    using a1 f1 by (simp add: check_apb1_def fstring_def)
  have c2: "check_apb2 REQUIREMENTS n2 v = Inr v"
    using a2 f2 by (simp add: check_apb2_def fstring_def)
  have clk: "validate_clock_config REQUIREMENTS v = Inr v"
    by (simp add: validate_clock_config_def get_value_present [OF a1(1)]
        get_value_present [OF a2(1)] a1(2) a2(2) c1 c2)
  have can: "validate_can_config v = v"
    using cm(2) by (simp add: validate_can_config_def Let_def get_value_present [OF cm(1)]
        get_value_present [OF nart])
  have "get_value v ''ProjectManager.DeletePrevious'' '''' \<noteq> ''true''"
    using del by (auto simp add: get_value_def split: option.splits)
  then have gen: "validate_code_generation v = v"
    by (simp add: validate_code_generation_def Let_def get_value_present [OF keep])
  show ?thesis
    by (simp add: run_validation_def Let_def dma irq clk can gen e w)
qed

text \<open>
  Claim C1. When the configuration loaded from the file holds the expected value under
  every key of the rulebook, the run of the five checks returns the verdict pass with no
  error and no warning, and the process ends with status 0.
\<close>

theorem expected_config_passes:
  assumes "length argv = 2" and "fs (argv ! 1) = Text t"
    and "meets_rulebook (config (loaded (argv ! 1) t))"
  shows "try_block REQUIREMENTS fs (argv ! 1) = Inr (loaded (argv ! 1) t, True)
         \<and> errors (loaded (argv ! 1) t) = []
         \<and> warnings (loaded (argv ! 1) t) = []
         \<and> main REQUIREMENTS argv fs = 0"
proof -
  have e: "errors (loaded (argv ! 1) t) = []" and w: "warnings (loaded (argv ! 1) t) = []"
    by (simp_all add: loaded_def)
  from run_validation_meets [OF assms(3) e w] assms(1,2) e w show ?thesis
    by (simp add: main_def try_block_cases)
qed

theorem expected_config_passes_witness:
  "length argv_sample = 2
   \<and> meets_rulebook (config (loaded (argv_sample ! 1) full_text))
   \<and> try_block REQUIREMENTS (\<lambda>p. Text full_text) (argv_sample ! 1) =
       Inr (loaded (argv_sample ! 1) full_text, True)
   \<and> main REQUIREMENTS argv_sample (\<lambda>p. Text full_text) = 0"
proof -
  have len: "length argv_sample = 2" by (simp add: argv_sample_def)
  have m: "meets_rulebook (config (loaded (argv_sample ! 1) full_text))" by code_simp
  from expected_config_passes [of argv_sample "\<lambda>p. Text full_text" full_text, OF len refl m] len m
  show ?thesis by blast
qed

subsection \<open>The range tests of the clock check\<close>

text \<open>
  As long as both frequencies can be converted to a double, the clock check appends an
  error exactly when the APB1 frequency is outside 42 to 50 MHz and a warning exactly when
  the APB2 frequency is outside 80 to 100 MHz.
\<close>

lemma clock_check_in_float_range:
  assumes "int_of_str (get_value v ''RCC.APB1Freq_Value'' ''0'') = Some n1"
    and "int_of_str (get_value v ''RCC.APB2Freq_Value'' ''0'') = Some n2"
    and "\<not> float_overflows n1" and "\<not> float_overflows n2"
  shows "validate_clock_config REQUIREMENTS v =
     Inr (v\<lparr>errors := errors v @
              (if 42000000 \<le> n1 \<and> n1 \<le> 50000000 then []
               else [[Lit ''APB1 frequency out of range: '', Fixed1 n1,
                      Lit '' MHz (expected '', Fixed0 42000000, Lit ''-'',
                      Fixed0 50000000, Lit '' MHz)'']]),
            warnings := warnings v @
              (if 80000000 \<le> n2 \<and> n2 \<le> 100000000 then []
               else [[Lit ''APB2 frequency out of optimal range: '', Fixed1 n2,
                      Lit '' MHz (recommended '', Fixed0 80000000, Lit ''-'',
                      Fixed0 100000000, Lit '' MHz)'']])\<rparr>)"
  using assms
  by (simp add: validate_clock_config_def check_apb1_def check_apb2_def fstring_def
      not_float_overflows_small)

lemma huge_apb1:
  "int_of_str (get_value (loaded ''board.ioc'' huge_text) ''RCC.APB1Freq_Value'' ''0'') =
     Some huge_freq"
  by code_simp

lemma huge_apb2:
  "int_of_str (get_value (loaded ''board.ioc'' huge_text) ''RCC.APB2Freq_Value'' ''0'') =
     Some 84000000"
  by code_simp

lemma float_overflows_huge: "float_overflows huge_freq"
  by (simp add: float_overflows_def huge_freq_def)

lemma huge_out_of_range: "\<not> (42000000 \<le> huge_freq \<and> huge_freq \<le> 50000000)"
  by (simp add: huge_freq_def)

text \<open>
  Claim C8, at the input where the code departs from it. The file gives
  \<open>RCC.APB1Freq_Value\<close> as 1 followed by 309 zeros and every other key as required. Both
  frequencies parse as integers and the APB1 frequency is outside its range, yet the clock
  check appends no error: evaluating the message raises \<open>OverflowError\<close>, which ends the
  run with the lists of findings empty and the process with status 2.
\<close>

theorem clock_overflow_escapes:
  "int_of_str (get_value (loaded ''board.ioc'' huge_text) ''RCC.APB1Freq_Value'' ''0'') =
     Some (10 ^ 309)
   \<and> int_of_str (get_value (loaded ''board.ioc'' huge_text) ''RCC.APB2Freq_Value'' ''0'') =
     Some 84000000
   \<and> validate_clock_config REQUIREMENTS (loaded ''board.ioc'' huge_text) =
     Inl (OverflowError, loaded ''board.ioc'' huge_text)
   \<and> errors (loaded ''board.ioc'' huge_text) = []
   \<and> (case run_validation REQUIREMENTS (loaded ''board.ioc'' huge_text) of
        Inl (e, v) \<Rightarrow> e = OverflowError \<and> errors v = [] \<and> warnings v = []
      | Inr r \<Rightarrow> False)
   \<and> main REQUIREMENTS argv_sample (\<lambda>p. Text huge_text) = 2"
proof -
  let ?v = "loaded ''board.ioc'' huge_text"
  have 1: "int_of_str (get_value ?v ''RCC.APB1Freq_Value'' ''0'') = Some (10 ^ 309)"
    using huge_apb1 by (simp only: huge_freq_def)
  have a: "check_apb1 REQUIREMENTS huge_freq ?v = Inl (OverflowError, ?v)"
    using float_overflows_huge huge_out_of_range by (simp add: check_apb1_def fstring_def)
  have 3: "validate_clock_config REQUIREMENTS ?v = Inl (OverflowError, ?v)"
    by (simp add: validate_clock_config_def huge_apb1 huge_apb2 a)
  have 4: "errors ?v = []" by (simp add: loaded_def)
  have 5: "(case run_validation REQUIREMENTS ?v of
        Inl (e, v) \<Rightarrow> e = OverflowError \<and> errors v = [] \<and> warnings v = []
      | Inr r \<Rightarrow> False)"
    by code_simp
  have 6: "main REQUIREMENTS argv_sample (\<lambda>p. Text huge_text) = 2" by code_simp
  from 1 huge_apb2 3 4 5 6 show ?thesis by blast
qed

subsection \<open>The loader\<close>

lemma split_eq_first:
  "CHR ''='' \<notin> set k \<Longrightarrow> split_eq (k @ CHR ''='' # r) = (k, r)"
  by (induction k) (auto simp add: split_eq_def)

lemma split_eq_drop:
  "split_eq s = (takeWhile (\<lambda>c. c \<noteq> CHR ''='') s,
                 drop (Suc (length (takeWhile (\<lambda>c. c \<noteq> CHR ''='') s))) s)"
  by (simp add: split_eq_def dropWhile_eq_drop drop_Suc tl_drop)

lemma load_line_spec:
  "load_line cfg raw = (case spec_entry raw of None \<Rightarrow> cfg | Some (k, v) \<Rightarrow> cfg(k \<mapsto> v))"
  by (auto simp add: load_line_def spec_entry_def Let_def split_eq_drop)

lemma foldl_load_line:
  "foldl load_line cfg ls = cfg ++ spec_load ls"
proof (induction ls arbitrary: cfg)
  case Nil
  then show ?case by (simp add: spec_load_def List.map_filter_simps)
next
  case (Cons l ls)
  show ?case
  proof (cases "spec_entry l")
    case None
    then show ?thesis using Cons [of cfg]
      by (simp add: load_line_spec spec_load_def List.map_filter_simps)
  next
    case (Some e)
    obtain k v where e: "e = (k, v)" by (cases e)
    have "load_line cfg l = cfg(k \<mapsto> v)"
      using Some e by (simp add: load_line_spec)
    then have "foldl load_line cfg (l # ls) = foldl load_line (cfg(k \<mapsto> v)) ls"
      by simp
    also have "\<dots> = cfg(k \<mapsto> v) ++ spec_load ls"
      by (rule Cons)
    also have "\<dots> = cfg ++ ([k \<mapsto> v] ++ spec_load ls)"
      by (simp add: map_add_assoc [symmetric])
    also have "[k \<mapsto> v] ++ spec_load ls = spec_load (l # ls)"
      using Some e by (simp add: spec_load_def List.map_filter_simps)
    finally show ?thesis .
  qed
qed

text \<open>
  Claim C5. For every text of the file, \<open>load_config\<close> returns, and the constructor
  with it, and the configuration it leaves is the one the specification describes: the
  lines of the text are taken one after the other, each on its own; a line that is empty
  once stripped, starts with \<open>#\<close> or holds no \<open>=\<close> changes nothing; any other line is
  cut at its first \<open>=\<close> and stores the stripped value under the stripped key, replacing
  an earlier value. From a file with the lines \<open>A=1\<close> and \<open>A=2\<close> the constructor
  returns a validator in which the value of \<open>A\<close> is \<open>2\<close>.
\<close>

theorem load_config_lines:
  "(fs (ioc_path v) = Text t \<longrightarrow>
      load_config fs v = Inr (v\<lparr>config := foldl load_line (config v) (readlines t)\<rparr>)
      \<and> load_config fs v = Inr (v\<lparr>config := config v ++ spec_load (readlines t)\<rparr>))
   \<and> (fs path = Text t \<longrightarrow>
      IocValidator fs path =
        Inr \<lparr> ioc_path = path, config = spec_load (readlines t), errors = [], warnings = [] \<rparr>)
   \<and> config (loaded path t) = spec_load (readlines t)
   \<and> foldl load_line cfg (ls @ ls') = foldl load_line (foldl load_line cfg ls) ls'
   \<and> foldl load_line cfg ls = cfg ++ spec_load ls
   \<and> (strip raw = k @ CHR ''='' # r \<longrightarrow> CHR ''='' \<notin> set k \<longrightarrow>
        \<not> startswith (strip raw) ''#'' \<longrightarrow>
        load_line cfg raw = cfg(strip k \<mapsto> strip r))
   \<and> (strip raw = [] \<or> startswith (strip raw) ''#'' \<or> CHR ''='' \<notin> set (strip raw) \<longrightarrow>
        load_line cfg raw = cfg)
   \<and> readlines (''A=1'' @ [CHR 0x0A] @ ''A=2'') = [''A=1'' @ [CHR 0x0A], ''A=2'']
   \<and> config (loaded path (''A=1'' @ [CHR 0x0A] @ ''A=2'')) ''A'' = Some ''2''
   \<and> (fs path = Text (''A=1'' @ [CHR 0x0A] @ ''A=2'') \<longrightarrow>
        (\<exists>u. IocValidator fs path = Inr u \<and> config u ''A'' = Some ''2''))"
proof -
  have 1: "config (loaded path t) = spec_load (readlines t)" for t
    by (simp add: loaded_def foldl_load_line)
  have 4: "load_line cfg raw = cfg(strip k \<mapsto> strip r)"
    if "strip raw = k @ CHR ''='' # r" "CHR ''='' \<notin> set k" "\<not> startswith (strip raw) ''#''"
    using that by (simp add: load_line_def Let_def split_eq_first)
  have 5: "load_line cfg raw = cfg"
    if "strip raw = [] \<or> startswith (strip raw) ''#'' \<or> CHR ''='' \<notin> set (strip raw)"
    using that by (auto simp add: load_line_def Let_def)
  have 6: "readlines (''A=1'' @ [CHR 0x0A] @ ''A=2'') = [''A=1'' @ [CHR 0x0A], ''A=2'']"
    by simp
  have 7: "config (loaded path (''A=1'' @ [CHR 0x0A] @ ''A=2'')) ''A'' = Some ''2''"
    by (simp add: loaded_def load_line_def Let_def strip_def lstrip_def rstrip_def isspace_def
        startswith_def split_eq_def)
  have 2: "foldl load_line cfg (ls @ ls') = foldl load_line (foldl load_line cfg ls) ls'"
    by simp
  have 8: "load_config fs v = Inr (v\<lparr>config := foldl load_line (config v) (readlines t)\<rparr>)"
    if "fs (ioc_path v) = Text t"
    using that by (simp add: load_config_def)
  have 9: "IocValidator fs path =
        Inr \<lparr> ioc_path = path, config = spec_load (readlines t), errors = [], warnings = [] \<rparr>"
    if "fs path = Text t" for t
    using that by (simp add: IocValidator_def load_config_def foldl_load_line)
  show ?thesis
  proof (intro conjI impI)
    show "load_config fs v = Inr (v\<lparr>config := foldl load_line (config v) (readlines t)\<rparr>)"
      if "fs (ioc_path v) = Text t"
      using that by (rule 8)
    show "load_config fs v = Inr (v\<lparr>config := config v ++ spec_load (readlines t)\<rparr>)"
      if "fs (ioc_path v) = Text t"
      using 8 [OF that] by (simp add: foldl_load_line)
    show "IocValidator fs path =
        Inr \<lparr> ioc_path = path, config = spec_load (readlines t), errors = [], warnings = [] \<rparr>"
      if "fs path = Text t"
      using that by (rule 9)
    show "config (loaded path t) = spec_load (readlines t)" by (rule 1)
    show "foldl load_line cfg (ls @ ls') = foldl load_line (foldl load_line cfg ls) ls'"
      by (rule 2)
    show "foldl load_line cfg ls = cfg ++ spec_load ls" by (rule foldl_load_line)
    show "load_line cfg raw = cfg(strip k \<mapsto> strip r)"
      if "strip raw = k @ CHR ''='' # r" "CHR ''='' \<notin> set k"
        "\<not> startswith (strip raw) ''#''"
      using that by (rule 4)
    show "load_line cfg raw = cfg"
      if "strip raw = [] \<or> startswith (strip raw) ''#'' \<or> CHR ''='' \<notin> set (strip raw)"
      using that by (rule 5)
    show "readlines (''A=1'' @ [CHR 0x0A] @ ''A=2'') = [''A=1'' @ [CHR 0x0A], ''A=2'']"
      by (rule 6)
    show "config (loaded path (''A=1'' @ [CHR 0x0A] @ ''A=2'')) ''A'' = Some ''2''"
      by (rule 7)
    show "\<exists>u. IocValidator fs path = Inr u \<and> config u ''A'' = Some ''2''"
      if "fs path = Text (''A=1'' @ [CHR 0x0A] @ ''A=2'')"
      using 9 [OF that] 7 [unfolded 1] by simp
  qed
qed

theorem load_config_lines_witness:
  "strip line_sample = ''CAN1.Mode '' @ CHR ''='' # '' A=B''
   \<and> CHR ''='' \<notin> set ''CAN1.Mode ''
   \<and> \<not> startswith (strip line_sample) ''#''
   \<and> load_line Map.empty line_sample = [''CAN1.Mode'' \<mapsto> ''A=B'']
   \<and> startswith (strip ''  # CAN1.Mode=NORMAL'') ''#''
   \<and> load_line [''K'' \<mapsto> ''v''] ''  # CAN1.Mode=NORMAL'' = [''K'' \<mapsto> ''v'']
   \<and> load_line [''K'' \<mapsto> ''v''] ''[section]'' = [''K'' \<mapsto> ''v'']
   \<and> IocValidator (\<lambda>p. Text line_sample) ''board.ioc'' =
       Inr \<lparr> ioc_path = ''board.ioc'', config = [''CAN1.Mode'' \<mapsto> ''A=B''],
             errors = [], warnings = [] \<rparr>
   \<and> load_config (\<lambda>p. Text line_sample) (fresh [''K'' \<mapsto> ''v'']) =
       Inr (fresh [''K'' \<mapsto> ''v'', ''CAN1.Mode'' \<mapsto> ''A=B''])
   \<and> (\<exists>u. IocValidator (\<lambda>p. Text (''A=1'' @ [CHR 0x0A] @ ''A=2'')) ''board.ioc'' = Inr u
            \<and> config u ''A'' = Some ''2'')"
proof -
  note r = load_config_lines [where fs = "\<lambda>p. Text line_sample" and v = "fresh [''K'' \<mapsto> ''v'']"
      and t = line_sample and path = "''board.ioc''" and cfg = Map.empty
      and ls = "[line_sample]"
      and ls' = "[]" and raw = line_sample and k = "''CAN1.Mode ''" and r = "'' A=B''"]
  note r2 = load_config_lines [where fs = "\<lambda>p. Text (''A=1'' @ [CHR 0x0A] @ ''A=2'')"
      and v = "fresh Map.empty" and t = "''A=1'' @ [CHR 0x0A] @ ''A=2''"
      and path = "''board.ioc''" and cfg = "[''K'' \<mapsto> ''v'']" and ls = "[]" and ls' = "[]"
      and raw = "''  # CAN1.Mode=NORMAL''" and k = "[]" and r = "[]"]
  note r3 = load_config_lines [where fs = "\<lambda>p. Missing" and v = "fresh Map.empty" and t = "[]"
      and path = "''board.ioc''" and cfg = "[''K'' \<mapsto> ''v'']" and ls = "[]" and ls' = "[]"
      and raw = "''[section]''" and k = "[]" and r = "[]"]
  note r4 = load_config_lines [where fs = "\<lambda>p. Missing" and v = "fresh Map.empty" and t = "[]"
      and path = "''board.ioc''" and cfg = "[''K'' \<mapsto> ''v'']" and ls = "[]" and ls' = "[]"
      and raw = line_sample and k = "''CAN1.Mode ''" and r = "'' A=B''"]
  have a: "strip line_sample = ''CAN1.Mode '' @ CHR ''='' # '' A=B''"
    by (simp add: line_sample_def nl_def strip_def lstrip_def rstrip_def isspace_def)
  have b: "CHR ''='' \<notin> set ''CAN1.Mode ''" by simp
  have c: "\<not> startswith (strip line_sample) ''#''"
    by (simp add: a startswith_def)
  have s: "strip ''CAN1.Mode '' = ''CAN1.Mode''" "strip '' A=B'' = ''A=B''"
    by (simp_all add: strip_def lstrip_def rstrip_def isspace_def)
  have d: "load_line Map.empty line_sample = [''CAN1.Mode'' \<mapsto> ''A=B'']"
    using r [THEN conjunct2, THEN conjunct2, THEN conjunct2, THEN conjunct2, THEN conjunct2,
        THEN conjunct1, rule_format, OF a b c]
    by (simp add: s)
  have e: "startswith (strip ''  # CAN1.Mode=NORMAL'') ''#''"
    by (simp add: strip_def lstrip_def rstrip_def isspace_def startswith_def)
  have f: "load_line [''K'' \<mapsto> ''v''] ''  # CAN1.Mode=NORMAL'' = [''K'' \<mapsto> ''v'']"
    using r2 e by blast
  have g: "CHR ''='' \<notin> set (strip ''[section]'')"
    by (simp add: strip_def lstrip_def rstrip_def isspace_def)
  have h: "load_line [''K'' \<mapsto> ''v''] ''[section]'' = [''K'' \<mapsto> ''v'']"
    using r3 g by blast
  have rl: "readlines line_sample = [line_sample]"
    by (simp add: line_sample_def nl_def)
  have sl: "spec_load (readlines line_sample) = [''CAN1.Mode'' \<mapsto> ''A=B'']"
    using r [THEN conjunct2, THEN conjunct2, THEN conjunct2, THEN conjunct2, THEN conjunct1]
    by (simp add: rl d)
  have i: "IocValidator (\<lambda>p. Text line_sample) ''board.ioc'' =
       Inr \<lparr> ioc_path = ''board.ioc'', config = [''CAN1.Mode'' \<mapsto> ''A=B''],
             errors = [], warnings = [] \<rparr>"
    using r [THEN conjunct2, THEN conjunct1, rule_format, OF refl] by (simp only: sl)
  have d': "load_line [''K'' \<mapsto> ''v''] line_sample = [''K'' \<mapsto> ''v'', ''CAN1.Mode'' \<mapsto> ''A=B'']"
    using r4 [THEN conjunct2, THEN conjunct2, THEN conjunct2, THEN conjunct2, THEN conjunct2,
        THEN conjunct1, rule_format, OF a b c]
    by (simp add: s)
  have fp: "(\<lambda>p. Text line_sample) (ioc_path (fresh [''K'' \<mapsto> ''v''])) = Text line_sample"
    by simp
  have j: "load_config (\<lambda>p. Text line_sample) (fresh [''K'' \<mapsto> ''v'']) =
       Inr (fresh [''K'' \<mapsto> ''v'', ''CAN1.Mode'' \<mapsto> ''A=B''])"
    using r [THEN conjunct1, rule_format, OF fp, THEN conjunct1]
    by (simp add: rl d' fresh_def)
  have k: "\<exists>u. IocValidator (\<lambda>p. Text (''A=1'' @ [CHR 0x0A] @ ''A=2'')) ''board.ioc'' = Inr u
            \<and> config u ''A'' = Some ''2''"
    by (rule r2 [THEN conjunct2, THEN conjunct2, THEN conjunct2, THEN conjunct2, THEN conjunct2,
        THEN conjunct2, THEN conjunct2, THEN conjunct2, THEN conjunct2, rule_format, OF refl])
  from a b c d e f h i j k show ?thesis by blast
qed

subsection \<open>What the checks read\<close>

lemma mode_enabled_get_value:
  "(get_value v ''CAN1.Mode'' '''' = '''') = (\<not> mode_enabled (config v))"
  by (simp add: get_value_def mode_enabled_def split: option.splits)

lemma rebase_simps [simp]:
  "config (rebase c p v) = c" "errors (rebase c p v) = errors v"
  "warnings (rebase c p v) = warnings v" "ioc_path (rebase c p v) = p"
  "rebase c p (v\<lparr>errors := es\<rparr>) = (rebase c p v)\<lparr>errors := es\<rparr>"
  "rebase c p (v\<lparr>warnings := ws\<rparr>) = (rebase c p v)\<lparr>warnings := ws\<rparr>"
  by (simp_all add: rebase_def)

lemma same_values_get_value:
  assumes "same_values (config v) c" and "(k, d) \<in> set lookups"
  shows "get_value (rebase c p v) k d = get_value v k d"
  using assms by (auto simp add: same_values_def list_all_iff get_value_def value_of_def)

lemma same_values_mode:
  assumes "same_values (config v) c"
  shows "(get_value (rebase c p v) ''CAN1.Mode'' '''' = '''') =
         (get_value v ''CAN1.Mode'' '''' = '''')"
  using assms by (simp add: mode_enabled_get_value same_values_def)

lemma dma_rebase:
  assumes "same_consulted_rules R R'" and "same_values (config v) c"
  shows "validate_dma_config R' (rebase c p v) = rebase c p (validate_dma_config R v)"
proof -
  have k: "get_value (rebase c p v) ''Dma.USART2_RX.0.Mode'' '''' =
        get_value v ''Dma.USART2_RX.0.Mode'' ''''"
    "get_value (rebase c p v) ''Dma.USART2_TX.1.Mode'' '''' =
        get_value v ''Dma.USART2_TX.1.Mode'' ''''"
    "get_value (rebase c p v) ''Dma.ADC1.0.Mode'' '''' = get_value v ''Dma.ADC1.0.Mode'' ''''"
    by (rule same_values_get_value [OF assms(2)], simp add: lookups_def)+
  from assms(1) show ?thesis
    by (simp add: validate_dma_config_def Let_def k same_consulted_rules_def)
qed

lemma interrupts_rebase:
  assumes "same_consulted_rules R R'" and "same_values (config v) c"
  shows "validate_interrupts R' (rebase c p v) = rebase c p (validate_interrupts R v)"
proof -
  have k: "get_value (rebase c p v) ''NVIC.DMA2_Stream0_IRQn.0.PreemptionPriority'' '''' =
        get_value v ''NVIC.DMA2_Stream0_IRQn.0.PreemptionPriority'' ''''"
    "get_value (rebase c p v) ''NVIC.DMA2_Stream0_IRQn.0.SubPriority'' '''' =
        get_value v ''NVIC.DMA2_Stream0_IRQn.0.SubPriority'' ''''"
    by (rule same_values_get_value [OF assms(2)], simp add: lookups_def)+
  from assms(1) show ?thesis
    by (simp add: validate_interrupts_def Let_def k same_consulted_rules_def)
qed

lemma check_apb1_rebase:
  assumes "same_consulted_rules R R'"
  shows "check_apb1 R' n (rebase c p v) =
         map_sum (\<lambda>(e, u). (e, rebase c p u)) (rebase c p) (check_apb1 R n v)"
  using assms by (simp add: check_apb1_def same_consulted_rules_def split: sum.splits)

lemma check_apb2_rebase:
  assumes "same_consulted_rules R R'"
  shows "check_apb2 R' n (rebase c p v) =
         map_sum (\<lambda>(e, u). (e, rebase c p u)) (rebase c p) (check_apb2 R n v)"
  using assms by (simp add: check_apb2_def same_consulted_rules_def split: sum.splits)

lemma clock_rebase:
  assumes "same_consulted_rules R R'" and "same_values (config v) c"
  shows "validate_clock_config R' (rebase c p v) =
         map_sum (\<lambda>(e, u). (e, rebase c p u)) (rebase c p) (validate_clock_config R v)"
proof -
  have k: "get_value (rebase c p v) ''RCC.APB1Freq_Value'' ''0'' =
        get_value v ''RCC.APB1Freq_Value'' ''0''"
    "get_value (rebase c p v) ''RCC.APB2Freq_Value'' ''0'' =
        get_value v ''RCC.APB2Freq_Value'' ''0''"
    by (rule same_values_get_value [OF assms(2)], simp add: lookups_def)+
  show ?thesis
    by (simp add: validate_clock_config_def k check_apb1_rebase [OF assms(1)]
        check_apb2_rebase [OF assms(1)] split: option.splits sum.splits)
qed

lemma can_rebase:
  assumes "same_values (config v) c"
  shows "validate_can_config (rebase c p v) = rebase c p (validate_can_config v)"
proof -
  have k: "get_value (rebase c p v) ''CAN1.NART'' '''' = get_value v ''CAN1.NART'' ''''"
    by (rule same_values_get_value [OF assms], simp add: lookups_def)
  show ?thesis
    by (simp add: validate_can_config_def Let_def k same_values_mode [OF assms])
qed

lemma code_generation_rebase:
  assumes "same_values (config v) c"
  shows "validate_code_generation (rebase c p v) = rebase c p (validate_code_generation v)"
proof -
  have k: "get_value (rebase c p v) ''ProjectManager.KeepUserCode'' '''' =
        get_value v ''ProjectManager.KeepUserCode'' ''''"
    "get_value (rebase c p v) ''ProjectManager.DeletePrevious'' '''' =
        get_value v ''ProjectManager.DeletePrevious'' ''''"
    by (rule same_values_get_value [OF assms], simp add: lookups_def)+
  show ?thesis
    by (simp add: validate_code_generation_def Let_def k)
qed

lemma config_validate_clock_config:
  "config (check_state (validate_clock_config R v)) = config v"
  by (auto simp add: validate_clock_config_def check_apb1_def check_apb2_def fstring_def
      check_state_def split: option.splits)

lemma run_rebase:
  assumes "same_consulted_rules R R'" and "same_values (config v) c"
  shows "run_validation R' (rebase c p v) =
         map_sum (\<lambda>(e, u). (e, rebase c p u)) (\<lambda>(u, b). (rebase c p u, b))
           (run_validation R v)"
proof -
  let ?v1 = "validate_dma_config R v"
  let ?v2 = "validate_interrupts R ?v1"
  have s1: "same_values (config ?v1) c" using assms(2) by simp
  have s2: "same_values (config ?v2) c" using assms(2) by simp
  have 12: "validate_interrupts R' (validate_dma_config R' (rebase c p v)) = rebase c p ?v2"
    by (simp add: dma_rebase [OF assms] interrupts_rebase [OF assms(1) s1])
  show ?thesis
  proof (cases "validate_clock_config R ?v2")
    case (Inl ev)
    then show ?thesis
      by (simp add: run_validation_def Let_def 12 clock_rebase [OF assms(1) s2]
          split: prod.splits)
  next
    case (Inr v3)
    then have "config v3 = config ?v2"
      using config_validate_clock_config [of R ?v2] by (simp add: check_state_def)
    then have s3: "same_values (config v3) c" using s2 by simp
    then have s4: "same_values (config (validate_can_config v3)) c" by simp
    show ?thesis
      by (simp add: run_validation_def Let_def 12 clock_rebase [OF assms(1) s2] Inr
          can_rebase [OF s3] code_generation_rebase [OF s4])
  qed
qed

lemma verdict_rebase:
  "verdict (map_sum (\<lambda>(e, u). (e, rebase c p u)) (\<lambda>(u, b). (rebase c p u, b)) r) = verdict r"
  by (simp add: verdict_def split: sum.splits prod.splits)

lemma rebase_self:
  "errors v' = errors v \<Longrightarrow> warnings v' = warnings v \<Longrightarrow>
   rebase (config v') (ioc_path v') v = v'"
  by (simp add: rebase_def)

lemma same_findings:
  assumes "same_consulted_rules R R'" and "same_values (config v) (config v')"
    and "errors v' = errors v" and "warnings v' = warnings v"
  shows "verdict (run_validation R' v') = verdict (run_validation R v)"
  using run_rebase [OF assms(1,2), of "ioc_path v'"] rebase_self [OF assms(3,4)]
  by (simp add: verdict_rebase)


lemma same_values_absent:
  assumes "config v k = None"
  shows "same_values (config v) ((config v)(k \<mapsto> default_of k))"
  using assms
  by (auto simp add: same_values_def lookups_def value_of_def default_of_def mode_enabled_def)




lemma same_consulted_rules_refl: "same_consulted_rules R R"
  by (simp add: same_consulted_rules_def)


subsection \<open>Missing keys\<close>

text \<open>
  Claim C3, as the specification states it, at the input where it fails. In the empty
  configuration \<open>RCC.APB1Freq_Value\<close> is absent; the clock check finds the frequency 0
  out of range, which is the reading of the default \<open>0\<close>, whereas the empty string as the
  value of that key is a parse failure. So the lookup did not resolve to the empty string,
  and the two runs differ.
\<close>

theorem missing_key_empty_default_counterexample:
  "config (fresh Map.empty) ''RCC.APB1Freq_Value'' = None
   \<and> errors (check_state (validate_clock_config REQUIREMENTS (fresh Map.empty))) =
       [[Lit ''APB1 frequency out of range: '', Fixed1 0, Lit '' MHz (expected '',
         Fixed0 42000000, Lit ''-'', Fixed0 50000000, Lit '' MHz)'']]
   \<and> errors (check_state (validate_clock_config REQUIREMENTS
                (fresh [''RCC.APB1Freq_Value'' \<mapsto> '''']))) =
       [[Lit ''Failed to parse clock frequencies from IOC file'']]
   \<and> verdict (run_validation REQUIREMENTS (fresh [''RCC.APB1Freq_Value'' \<mapsto> ''''])) \<noteq>
     verdict (run_validation REQUIREMENTS (fresh Map.empty))"
proof -
  have 1: "config (fresh Map.empty) ''RCC.APB1Freq_Value'' = None"
    by (simp add: fresh_def)
  have 2: "errors (check_state (validate_clock_config REQUIREMENTS (fresh Map.empty))) =
       [[Lit ''APB1 frequency out of range: '', Fixed1 0, Lit '' MHz (expected '',
         Fixed0 42000000, Lit ''-'', Fixed0 50000000, Lit '' MHz)'']]"
    by code_simp
  have 3: "errors (check_state (validate_clock_config REQUIREMENTS
                (fresh [''RCC.APB1Freq_Value'' \<mapsto> '''']))) =
       [[Lit ''Failed to parse clock frequencies from IOC file'']]"
    by code_simp
  have 4: "verdict (run_validation REQUIREMENTS (fresh [''RCC.APB1Freq_Value'' \<mapsto> ''''])) \<noteq>
     verdict (run_validation REQUIREMENTS (fresh Map.empty))"
    by code_simp
  from 1 2 3 4 show ?thesis by blast
qed

text \<open>
  Claim C3, amended. A lookup of an absent key returns the default that the call passes,
  and never fails: the empty string in every call but those for \<open>RCC.APB1Freq_Value\<close>
  and \<open>RCC.APB2Freq_Value\<close>, whose default is \<open>0\<close>. A run on a configuration without the
  key ends exactly as the run on the configuration that holds the key with that default:
  the same exception if any, the same errors, the same warnings, the same verdict.
\<close>

theorem missing_key_takes_default:
  assumes "config v k = None"
  shows "get_value v k d = d
         \<and> verdict (run_validation R (v\<lparr>config := (config v)(k \<mapsto> default_of k)\<rparr>)) =
           verdict (run_validation R v)"
proof -
  have "verdict (run_validation R (v\<lparr>config := (config v)(k \<mapsto> default_of k)\<rparr>)) =
        verdict (run_validation R v)"
    by (rule same_findings [OF same_consulted_rules_refl])
      (simp_all add: same_values_absent [OF assms])
  with assms show ?thesis by (simp add: get_value_def)
qed

theorem missing_key_takes_default_witness:
  "config (fresh Map.empty) ''RCC.APB1Freq_Value'' = None
   \<and> get_value (fresh Map.empty) ''RCC.APB1Freq_Value'' ''0'' = ''0''
   \<and> verdict (run_validation REQUIREMENTS (fresh [''RCC.APB1Freq_Value'' \<mapsto> ''0''])) =
     verdict (run_validation REQUIREMENTS (fresh Map.empty))
   \<and> config (fresh Map.empty) ''Dma.ADC1.0.Mode'' = None
   \<and> get_value (fresh Map.empty) ''Dma.ADC1.0.Mode'' '''' = ''''
   \<and> verdict (run_validation REQUIREMENTS (fresh [''Dma.ADC1.0.Mode'' \<mapsto> ''''])) =
     verdict (run_validation REQUIREMENTS (fresh Map.empty))"
proof -
  have a: "config (fresh Map.empty) ''RCC.APB1Freq_Value'' = None"
    and b: "config (fresh Map.empty) ''Dma.ADC1.0.Mode'' = None"
    by (simp_all add: fresh_def)
  have u: "(fresh Map.empty)\<lparr>config := (config (fresh Map.empty))
              (''RCC.APB1Freq_Value'' \<mapsto> default_of ''RCC.APB1Freq_Value'')\<rparr> =
           fresh [''RCC.APB1Freq_Value'' \<mapsto> ''0'']"
    "(fresh Map.empty)\<lparr>config := (config (fresh Map.empty))
              (''Dma.ADC1.0.Mode'' \<mapsto> default_of ''Dma.ADC1.0.Mode'')\<rparr> =
           fresh [''Dma.ADC1.0.Mode'' \<mapsto> '''']"
    by (simp_all add: fresh_def default_of_def)
  from missing_key_takes_default [OF a, of "''0''" REQUIREMENTS]
    missing_key_takes_default [OF b, of "''''" REQUIREMENTS] a b
  show ?thesis by (simp only: u)
qed

subsection \<open>Entries and keys that no check reads\<close>





end
